theory Spec2Isabelle
  imports Complex_Main "HOL-Library.Sublist"
begin

section \<open>lconfig: a template-driven configuration store\<close>

text \<open>
  The library is one header, \<^verbatim>\<open>lconfig.h\<close>. A template (the macro
  \<^verbatim>\<open>LCONFIG_TEMPLATE\<close>) declares labels and integer, double and string fields; the
  header expands it into three tables of descriptors with a current value each, and
  into the body of the writer. The second copy of the header in the repository is the
  same code without the double category and without \<^verbatim>\<open>lconfigInit\<close>.

  The embedding follows \<^verbatim>\<open>lconfig.h\<close> function by function. A C string is the
  list of its characters before the terminating NUL; a pointer that may be NULL is an
  \<open>option\<close>. C's \<^verbatim>\<open>int\<close> is modelled by \<open>int\<close>: the code compares and copies
  integers and never does arithmetic on them, so no operation of the model can leave the
  range of the machine type except \<open>atoi\<close> on a numeral that does not fit, where C
  leaves the result undefined and the model keeps the mathematical value.
\<close>

subsection \<open>Doubles\<close>

text \<open>
  The code compares doubles with \<^verbatim>\<open><\<close> and \<^verbatim>\<open>>\<close> and copies them. A double is
  therefore modelled by its value: a real number, one of the two infinities, or NaN
  (both zeros are the real 0, which the comparisons cannot tell apart).
\<close>

datatype dbl = NaN | MInf | Fin real | PInf

text \<open>C's \<^verbatim>\<open><\<close> on doubles: false as soon as one side is NaN.\<close>

fun dbl_less :: "dbl \<Rightarrow> dbl \<Rightarrow> bool" where
  "dbl_less NaN _ = False"
| "dbl_less _ NaN = False"
| "dbl_less _ MInf = False"
| "dbl_less MInf _ = True"
| "dbl_less PInf _ = False"
| "dbl_less (Fin x) (Fin y) = (x < y)"
| "dbl_less (Fin x) PInf = True"

text \<open>C's \<^verbatim>\<open><=\<close> on doubles, used to say that a value lies in an interval.\<close>

definition dbl_le :: "dbl \<Rightarrow> dbl \<Rightarrow> bool" where
  "dbl_le a b = (a \<noteq> NaN \<and> b \<noteq> NaN \<and> \<not> dbl_less b a)"

subsection \<open>The structs and the template\<close>

text \<open>
  \<^verbatim>\<open>struct lcfg_int\<close>, \<^verbatim>\<open>struct lcfg_dbl\<close> and \<^verbatim>\<open>struct lcfg_str\<close>. The field
  \<^verbatim>\<open>name\<close> is NULL in a slot of the table that no declaration fills. \<^verbatim>\<open>len\<close> is
  the size of the buffer \<^verbatim>\<open>cur\<close> minus one, so it is never negative; \<^verbatim>\<open>cur\<close> of a
  string field is the C string held in that buffer. In a slot that no declaration fills
  \<^verbatim>\<open>def\<close> and \<^verbatim>\<open>cur\<close> of a string field are NULL as well; every access is
  behind the test of the name, so no function reads them there, and the model holds empty
  strings in their place.
\<close>

record lcfg_int =
  iname :: "string option"
  imin :: int
  imax :: int
  idef :: int
  icur :: int

record lcfg_dbl =
  dname :: "string option"
  dmin :: dbl
  dmax :: dbl
  ddef :: dbl
  dcur :: dbl

record lcfg_str =
  sname :: "string option"
  slen :: nat
  sdef :: string
  scur :: string

text \<open>
  One macro call of the template. \<^verbatim>\<open>LCONFIG_LINE(...)\<close> carries the format string
  of a label, which the writer hands to \<^verbatim>\<open>fprintf\<close> (nothing for an empty line). A
  label with further arguments behind its format is not modelled.
\<close>

datatype entry =
    LCONFIG_LINE string
  | LCONFIG_INT nat string int int int
  | LCONFIG_DBL nat string dbl dbl dbl
  | LCONFIG_STR nat string nat string

type_synonym template = "entry list"

text \<open>
  The global state of the program: the three tables, and the file at
  \<^verbatim>\<open>LCONFIG_PATH\<close>. \<open>disk\<close> is the content of that file (\<open>None\<close> when there is
  none), \<open>r_ok\<close> and \<open>w_ok\<close> say whether the process may open it for reading and for
  writing.
\<close>

record world =
  lcfg_ints :: "lcfg_int list"
  lcfg_dbls :: "lcfg_dbl list"
  lcfg_strs :: "lcfg_str list"
  disk :: "string option"
  r_ok :: bool
  w_ok :: bool

abbreviation newline :: char where
  "newline \<equiv> CHR 0x0A"

text \<open>The size of the reader's line buffer, at the default of the header.\<close>

definition LCONFIG_LMAX :: nat where
  "LCONFIG_LMAX = 512"

subsection \<open>The tables built from the template\<close>

text \<open>
  \<^verbatim>\<open>static struct lcfg_int lcfg_ints[] = {{0}, LCONFIG_TEMPLATE};\<close> with
  \<^verbatim>\<open>LCONFIG_INT(ID, NAME, MIN, MAX, DEF)\<close> expanding to the designated initialiser
  \<^verbatim>\<open>[ID] = {NAME " ", MIN, MAX, DEF, DEF},\<close> and every other macro to nothing: the
  array starts as one zeroed slot, each declaration writes its slot (a later one for the
  same ID overrides), and the array is as long as the largest ID needs. The stored name
  is the declared name followed by one space.
\<close>

definition designate :: "'a \<Rightarrow> nat \<Rightarrow> 'a \<Rightarrow> 'a list \<Rightarrow> 'a list" where
  "designate z i v xs = (xs @ replicate (Suc i - length xs) z)[i := v]"

definition zero_int :: lcfg_int where
  "zero_int = \<lparr>iname = None, imin = 0, imax = 0, idef = 0, icur = 0\<rparr>"

definition zero_dbl :: lcfg_dbl where
  "zero_dbl = \<lparr>dname = None, dmin = Fin 0, dmax = Fin 0, ddef = Fin 0, dcur = Fin 0\<rparr>"

definition zero_str :: lcfg_str where
  "zero_str = \<lparr>sname = None, slen = 0, sdef = [], scur = []\<rparr>"

fun init_int :: "lcfg_int list \<Rightarrow> entry \<Rightarrow> lcfg_int list" where
  "init_int tbl (LCONFIG_INT ident name lo hi dflt) =
     designate zero_int ident
       \<lparr>iname = Some (name @ '' ''), imin = lo, imax = hi, idef = dflt, icur = dflt\<rparr> tbl"
| "init_int tbl _ = tbl"

fun init_dbl :: "lcfg_dbl list \<Rightarrow> entry \<Rightarrow> lcfg_dbl list" where
  "init_dbl tbl (LCONFIG_DBL ident name lo hi dflt) =
     designate zero_dbl ident
       \<lparr>dname = Some (name @ '' ''), dmin = lo, dmax = hi, ddef = dflt, dcur = dflt\<rparr> tbl"
| "init_dbl tbl _ = tbl"

text \<open>
  \<^verbatim>\<open>[ID] = {NAME " ", LEN, DEF, (char[LEN+1]){DEF}},\<close>: the buffer starts as a copy of
  the default, unchecked. (A default longer than \<^verbatim>\<open>LEN\<close> does not fit the buffer with
  its terminator; the theorems about initial states take templates whose defaults fit.)
\<close>

fun init_str :: "lcfg_str list \<Rightarrow> entry \<Rightarrow> lcfg_str list" where
  "init_str tbl (LCONFIG_STR ident name len dflt) =
     designate zero_str ident
       \<lparr>sname = Some (name @ '' ''), slen = len, sdef = dflt, scur = dflt\<rparr> tbl"
| "init_str tbl _ = tbl"

text \<open>The state at program start, before any call, given what the file system holds.\<close>

definition lcfg_start :: "template \<Rightarrow> string option \<Rightarrow> bool \<Rightarrow> bool \<Rightarrow> world" where
  "lcfg_start tmpl d r w =
     \<lparr>lcfg_ints = foldl init_int [zero_int] tmpl,
      lcfg_dbls = foldl init_dbl [zero_dbl] tmpl,
      lcfg_strs = foldl init_str [zero_str] tmpl,
      disk = d, r_ok = r, w_ok = w\<rparr>"

subsection \<open>The internal setters\<close>

text \<open>\<^verbatim>\<open>lcfgIntSet\<close>, \<^verbatim>\<open>lcfgDblSet\<close>: two tests in sequence, then the store.\<close>

definition lcfgIntSet :: "lcfg_int \<Rightarrow> int \<Rightarrow> lcfg_int" where
  "lcfgIntSet cfg val =
     (let val = (if val < imin cfg then imin cfg else val);
          val = (if val > imax cfg then imax cfg else val)
      in cfg\<lparr>icur := val\<rparr>)"

definition lcfgDblSet :: "lcfg_dbl \<Rightarrow> dbl \<Rightarrow> lcfg_dbl" where
  "lcfgDblSet cfg val =
     (let val = (if dbl_less val (dmin cfg) then dmin cfg else val);
          val = (if dbl_less (dmax cfg) val then dmax cfg else val)
      in cfg\<lparr>dcur := val\<rparr>)"

text \<open>\<^verbatim>\<open>strcspn(val, "\n")\<close>: the number of characters before the first newline.\<close>

definition strcspn_nl :: "string \<Rightarrow> nat" where
  "strcspn_nl val = length (takeWhile (\<lambda>c. c \<noteq> newline) val)"

text \<open>
  \<^verbatim>\<open>lcfgStrSet\<close>: \<^verbatim>\<open>strncpy\<close> copies \<open>len\<close> characters (none of them the terminator
  of \<open>val\<close>, since \<open>len\<close> is at most its length) and the terminator is written behind
  them.
\<close>

definition lcfgStrSet :: "lcfg_str \<Rightarrow> string \<Rightarrow> lcfg_str" where
  "lcfgStrSet cfg val =
     (let len = strcspn_nl val;
          len = (if len > slen cfg then slen cfg else len)
      in cfg\<lparr>scur := take len val\<rparr>)"

subsection \<open>The accessors\<close>

text \<open>
  The guard of every accessor:
  \<^verbatim>\<open>(id >= 0)&&(id < sizeof(tbl)/sizeof(tbl[0]))&&(tbl[id].name)\<close>.
\<close>

definition int_valid :: "world \<Rightarrow> int \<Rightarrow> bool" where
  "int_valid w ident =
     (ident \<ge> 0 \<and> ident < int (length (lcfg_ints w)) \<and> iname (lcfg_ints w ! nat ident) \<noteq> None)"

definition dbl_valid :: "world \<Rightarrow> int \<Rightarrow> bool" where
  "dbl_valid w ident =
     (ident \<ge> 0 \<and> ident < int (length (lcfg_dbls w)) \<and> dname (lcfg_dbls w ! nat ident) \<noteq> None)"

definition str_valid :: "world \<Rightarrow> int \<Rightarrow> bool" where
  "str_valid w ident =
     (ident \<ge> 0 \<and> ident < int (length (lcfg_strs w)) \<and> sname (lcfg_strs w ! nat ident) \<noteq> None)"

definition lconfigGetInt :: "world \<Rightarrow> int \<Rightarrow> int" where
  "lconfigGetInt w ident =
     (if int_valid w ident then icur (lcfg_ints w ! nat ident) else - 1)"

definition lconfigSetInt :: "world \<Rightarrow> int \<Rightarrow> int \<Rightarrow> world" where
  "lconfigSetInt w ident val =
     (if int_valid w ident
      then w\<lparr>lcfg_ints := (lcfg_ints w)[nat ident := lcfgIntSet (lcfg_ints w ! nat ident) val]\<rparr>
      else w)"

definition lconfigGetDouble :: "world \<Rightarrow> int \<Rightarrow> dbl" where
  "lconfigGetDouble w ident =
     (if dbl_valid w ident then dcur (lcfg_dbls w ! nat ident) else NaN)"

definition lconfigSetDouble :: "world \<Rightarrow> int \<Rightarrow> dbl \<Rightarrow> world" where
  "lconfigSetDouble w ident val =
     (if dbl_valid w ident
      then w\<lparr>lcfg_dbls := (lcfg_dbls w)[nat ident := lcfgDblSet (lcfg_dbls w ! nat ident) val]\<rparr>
      else w)"

text \<open>\<^verbatim>\<open>lconfigGetString\<close> returns a pointer: \<open>None\<close> is NULL.\<close>

definition lconfigGetString :: "world \<Rightarrow> int \<Rightarrow> string option" where
  "lconfigGetString w ident =
     (if str_valid w ident then Some (scur (lcfg_strs w ! nat ident)) else None)"

definition lconfigSetString :: "world \<Rightarrow> int \<Rightarrow> string \<Rightarrow> world" where
  "lconfigSetString w ident val =
     (if str_valid w ident
      then w\<lparr>lcfg_strs := (lcfg_strs w)[nat ident := lcfgStrSet (lcfg_strs w ! nat ident) val]\<rparr>
      else w)"

subsection \<open>Reset\<close>

text \<open>
  \<^verbatim>\<open>lconfigDefault\<close>: three loops over the tables, each setting the slots that carry
  a name to their default through the internal setter.
\<close>

definition lconfigDefault :: "world \<Rightarrow> world" where
  "lconfigDefault w =
     w\<lparr>lcfg_ints := map (\<lambda>c. if iname c \<noteq> None then lcfgIntSet c (idef c) else c) (lcfg_ints w),
       lcfg_dbls := map (\<lambda>c. if dname c \<noteq> None then lcfgDblSet c (ddef c) else c) (lcfg_dbls w),
       lcfg_strs := map (\<lambda>c. if sname c \<noteq> None then lcfgStrSet c (sdef c) else c) (lcfg_strs w)\<rparr>"

subsection \<open>The C library calls of the reader and the writer\<close>

text \<open>
  \<^verbatim>\<open>isspace\<close> and \<^verbatim>\<open>isdigit\<close> in the C locale, and \<^verbatim>\<open>atoi\<close>: white space is
  skipped, one sign is read, then decimal digits for as long as there are any; text that
  starts with no digit gives 0.
\<close>

definition isspace :: "char \<Rightarrow> bool" where
  "isspace c = (c = CHR '' '' \<or> (9 \<le> (of_char c :: nat) \<and> (of_char c :: nat) \<le> 13))"

definition isdigit :: "char \<Rightarrow> bool" where
  "isdigit c = (48 \<le> (of_char c :: nat) \<and> (of_char c :: nat) \<le> 57)"

fun atoi_digits :: "int \<Rightarrow> string \<Rightarrow> int" where
  "atoi_digits acc [] = acc"
| "atoi_digits acc (c # cs) =
     (if isdigit c then atoi_digits (acc * 10 + (int (of_char c) - 48)) cs else acc)"

definition atoi :: "string \<Rightarrow> int" where
  "atoi s =
     (case dropWhile isspace s of
        [] \<Rightarrow> 0
      | c # cs \<Rightarrow>
          if c = CHR ''-'' then - atoi_digits 0 cs
          else if c = CHR ''+'' then atoi_digits 0 cs
          else atoi_digits 0 (c # cs))"

text \<open>\<^verbatim>\<open>printf("%d")\<close>: the decimal digits, behind a minus sign for a negative number.\<close>

fun digits :: "nat \<Rightarrow> string" where
  "digits n =
     (if n < 10 then [''0123456789'' ! n]
      else digits (n div 10) @ [''0123456789'' ! (n mod 10)])"

declare digits.simps [simp del]

definition printf_d :: "int \<Rightarrow> string" where
  "printf_d i = (if i < 0 then CHR ''-'' # digits (nat (- i)) else digits (nat i))"

text \<open>\<^verbatim>\<open>printf("%s")\<close> of a pointer; glibc prints a NULL pointer as \<^verbatim>\<open>(null)\<close>.\<close>

definition printf_s :: "string option \<Rightarrow> string" where
  "printf_s p = (case p of None \<Rightarrow> ''(null)'' | Some s \<Rightarrow> s)"

text \<open>
  \<^verbatim>\<open>fgets(txt, n, cfg)\<close> on a stream whose unread part is \<open>cs\<close>: the characters it
  stores, at most \<open>n - 1\<close> of them, ending behind the first newline.
\<close>

fun fgets :: "nat \<Rightarrow> string \<Rightarrow> string" where
  "fgets n [] = []"
| "fgets n (c # cs) =
     (if n \<le> 1 then [] else if c = newline then [c] else c # fgets (n - 1) cs)"

text \<open>
  \<^verbatim>\<open>strncmp(s1, s2, n) == 0\<close>: both strings agree on their first \<open>n\<close> characters, or
  they are equal and shorter.
\<close>

definition strncmp_eq :: "string \<Rightarrow> string \<Rightarrow> nat \<Rightarrow> bool" where
  "strncmp_eq s1 s2 n = (take n s1 = take n s2)"

text \<open>
  \<^verbatim>\<open>printf("%.17g")\<close> and \<^verbatim>\<open>atof\<close> convert between a double and its decimal text.
  The header calls them and does not define them; they are the two fields of this
  record, which the reader and the writer take as an argument.
\<close>

record libc =
  printf_g17 :: "dbl \<Rightarrow> string"
  atof :: "string \<Rightarrow> dbl"

subsection \<open>The reader\<close>

text \<open>
  \<^verbatim>\<open>lcfgIntRead\<close>, \<^verbatim>\<open>lcfgDblRead\<close>, \<^verbatim>\<open>lcfgStrRead\<close>. The callers pass slots whose
  name is not NULL only.
\<close>

definition lcfgIntRead :: "lcfg_int \<Rightarrow> string \<Rightarrow> lcfg_int" where
  "lcfgIntRead cfg txt =
     (case iname cfg of
        None \<Rightarrow> cfg
      | Some name \<Rightarrow>
          if strncmp_eq name txt (length name)
          then lcfgIntSet cfg (atoi (drop (length name) txt))
          else cfg)"

definition lcfgDblRead :: "libc \<Rightarrow> lcfg_dbl \<Rightarrow> string \<Rightarrow> lcfg_dbl" where
  "lcfgDblRead lib cfg txt =
     (case dname cfg of
        None \<Rightarrow> cfg
      | Some name \<Rightarrow>
          if strncmp_eq name txt (length name)
          then lcfgDblSet cfg (atof lib (drop (length name) txt))
          else cfg)"

definition lcfgStrRead :: "lcfg_str \<Rightarrow> string \<Rightarrow> lcfg_str" where
  "lcfgStrRead cfg txt =
     (case sname cfg of
        None \<Rightarrow> cfg
      | Some name \<Rightarrow>
          if strncmp_eq name txt (length name)
          then lcfgStrSet cfg (drop (length name) txt)
          else cfg)"

text \<open>The body of the \<^verbatim>\<open>while\<close> loop of \<^verbatim>\<open>lconfigRead\<close>, for one buffer \<open>txt\<close>.\<close>

definition read_txt :: "libc \<Rightarrow> world \<Rightarrow> string \<Rightarrow> world" where
  "read_txt lib w txt =
     w\<lparr>lcfg_ints := map (\<lambda>c. if iname c \<noteq> None then lcfgIntRead c txt else c) (lcfg_ints w),
       lcfg_dbls := map (\<lambda>c. if dname c \<noteq> None then lcfgDblRead lib c txt else c) (lcfg_dbls w),
       lcfg_strs := map (\<lambda>c. if sname c \<noteq> None then lcfgStrRead c txt else c) (lcfg_strs w)\<rparr>"

text \<open>
  The loop \<^verbatim>\<open>while (fgets(txt, LCONFIG_LMAX, cfg))\<close>; \<open>cfg\<close> is the unread part of the
  stream, and \<^verbatim>\<open>fgets\<close> returns NULL when nothing is left.
\<close>

function read_loop :: "libc \<Rightarrow> world \<Rightarrow> string \<Rightarrow> world" where
  "read_loop lib w cfg =
     (if cfg = [] then w
      else let txt = fgets LCONFIG_LMAX cfg
           in read_loop lib (read_txt lib w txt) (drop (length txt) cfg))"
  by pat_completeness auto
termination
proof (relation "measure (\<lambda>(lib, w, cfg). length cfg)")
  fix lib :: libc and w :: world and cfg buf :: string
  assume "cfg \<noteq> []" and "buf = fgets LCONFIG_LMAX cfg"
  then have "buf \<noteq> []"
    by (cases cfg) (auto simp: LCONFIG_LMAX_def)
  with \<open>cfg \<noteq> []\<close>
  show "((lib, read_txt lib w buf, drop (length buf) cfg), (lib, w, cfg))
          \<in> measure (\<lambda>(lib, w, cfg). length cfg)"
    by (cases cfg) auto
qed simp

declare read_loop.simps [simp del]

text \<open>The same loop, stopped after it has run \<open>k\<close> times.\<close>

fun read_upto :: "nat \<Rightarrow> libc \<Rightarrow> world \<Rightarrow> string \<Rightarrow> world" where
  "read_upto 0 lib w cfg = w"
| "read_upto (Suc k) lib w cfg =
     (if cfg = [] then w
      else let txt = fgets LCONFIG_LMAX cfg
           in read_upto k lib (read_txt lib w txt) (drop (length txt) cfg))"

declare read_upto.simps [simp del]

text \<open>\<^verbatim>\<open>fopen(LCONFIG_PATH, "r")\<close>: the content of the file, when it opens.\<close>

definition fopen_r :: "world \<Rightarrow> string option" where
  "fopen_r w = (if r_ok w then disk w else None)"

definition lconfigRead :: "libc \<Rightarrow> world \<Rightarrow> int \<times> world" where
  "lconfigRead lib w =
     (case fopen_r w of
        Some cfg \<Rightarrow> (0, read_loop lib w cfg)
      | None \<Rightarrow> (1, w))"

subsection \<open>The writer\<close>

text \<open>
  \<^verbatim>\<open>fprintf(cfg, fmt)\<close> with a format and no further argument: every character is
  printed as it is, and \<^verbatim>\<open>%%\<close> prints one \<^verbatim>\<open>%\<close>. A conversion that takes an
  argument finds none, which C leaves undefined; \<open>fmt_plain\<close> says that the format holds
  no such conversion, and where it does the model prints the format from there on as it
  is.
\<close>

fun fprintf0 :: "string \<Rightarrow> string" where
  "fprintf0 [] = []"
| "fprintf0 [c] = [c]"
| "fprintf0 (c # d # cs) =
     (if c = CHR ''%''
      then (if d = CHR ''%'' then CHR ''%'' # fprintf0 cs else c # d # cs)
      else c # fprintf0 (d # cs))"

fun fmt_plain :: "string \<Rightarrow> bool" where
  "fmt_plain [] = True"
| "fmt_plain [c] = (c \<noteq> CHR ''%'')"
| "fmt_plain (c # d # cs) =
     (if c = CHR ''%'' then d = CHR ''%'' \<and> fmt_plain cs else fmt_plain (d # cs))"

text \<open>
  \<^verbatim>\<open>lcfgIntPrint\<close>, \<^verbatim>\<open>lcfgDblPrint\<close>, \<^verbatim>\<open>lcfgStrPrint\<close>: the text each call appends
  to the stream.
\<close>

definition lcfgIntPrint :: "lcfg_int \<Rightarrow> string" where
  "lcfgIntPrint cfg = printf_s (iname cfg) @ printf_d (icur cfg) @ [newline]"

definition lcfgDblPrint :: "libc \<Rightarrow> lcfg_dbl \<Rightarrow> string" where
  "lcfgDblPrint lib cfg = printf_s (dname cfg) @ printf_g17 lib (dcur cfg) @ [newline]"

definition lcfgStrPrint :: "lcfg_str \<Rightarrow> string" where
  "lcfgStrPrint cfg = printf_s (sname cfg) @ scur cfg @ [newline]"

text \<open>
  The template as \<^verbatim>\<open>lconfigWrite\<close> expands it. A label becomes
  \<^verbatim>\<open>fprintf(cfg, __VA_ARGS__ "\n")\<close>: its format with a newline behind it is the
  format of the call. A field prints the slot of its ID.
\<close>

fun write_entry :: "libc \<Rightarrow> world \<Rightarrow> entry \<Rightarrow> string" where
  "write_entry lib w (LCONFIG_LINE t) = fprintf0 (t @ [newline])"
| "write_entry lib w (LCONFIG_INT ident name lo hi dflt) = lcfgIntPrint (lcfg_ints w ! ident)"
| "write_entry lib w (LCONFIG_DBL ident name lo hi dflt) = lcfgDblPrint lib (lcfg_dbls w ! ident)"
| "write_entry lib w (LCONFIG_STR ident name len dflt) = lcfgStrPrint (lcfg_strs w ! ident)"

text \<open>
  \<^verbatim>\<open>lconfigWrite\<close>: \<^verbatim>\<open>fopen(LCONFIG_PATH, "w")\<close> empties or creates the file when it
  succeeds, and the entries are printed in the order of the template.
\<close>

definition lconfigWrite :: "libc \<Rightarrow> template \<Rightarrow> world \<Rightarrow> int \<times> world" where
  "lconfigWrite lib tmpl w =
     (if w_ok w
      then (0, w\<lparr>disk := Some (concat (map (write_entry lib w) tmpl))\<rparr>)
      else (1, w))"

text \<open>\<^verbatim>\<open>lconfigInit\<close>: read, then write, both results dropped.\<close>

definition lconfigInit :: "libc \<Rightarrow> template \<Rightarrow> world \<Rightarrow> world" where
  "lconfigInit lib tmpl w = snd (lconfigWrite lib tmpl (snd (lconfigRead lib w)))"

subsection \<open>Fields, as the properties speak of them\<close>

text \<open>
  A field is a category and an ID. It is registered when the accessor's guard lets it
  through; its stored name is the declared name with the separator, and its current
  value is what the accessor of its category returns.
\<close>

datatype field = IntField nat | DblField nat | StrField nat

datatype cur_value = IntVal int | DblVal dbl | StrVal string

fun registered :: "world \<Rightarrow> field \<Rightarrow> bool" where
  "registered w (IntField i) = int_valid w (int i)"
| "registered w (DblField i) = dbl_valid w (int i)"
| "registered w (StrField i) = str_valid w (int i)"

fun stored_name :: "world \<Rightarrow> field \<Rightarrow> string" where
  "stored_name w (IntField i) = the (iname (lcfg_ints w ! i))"
| "stored_name w (DblField i) = the (dname (lcfg_dbls w ! i))"
| "stored_name w (StrField i) = the (sname (lcfg_strs w ! i))"

fun current :: "world \<Rightarrow> field \<Rightarrow> cur_value" where
  "current w (IntField i) = IntVal (lconfigGetInt w (int i))"
| "current w (DblField i) = DblVal (lconfigGetDouble w (int i))"
| "current w (StrField i) = StrVal (the (lconfigGetString w (int i)))"

text \<open>All slots of the three tables, and the registered ones among them.\<close>

definition slots :: "world \<Rightarrow> field list" where
  "slots w =
     map IntField [0 ..< length (lcfg_ints w)] @
     map DblField [0 ..< length (lcfg_dbls w)] @
     map StrField [0 ..< length (lcfg_strs w)]"

definition fields :: "world \<Rightarrow> field list" where
  "fields w = filter (registered w) (slots w)"

text \<open>
  A string field is in order when its value has no newline and is no longer than the
  field allows; the store is in order when every registered string field is.
\<close>

definition str_ok :: "lcfg_str \<Rightarrow> bool" where
  "str_ok c = (newline \<notin> set (scur c) \<and> length (scur c) \<le> slen c)"

definition strs_ok :: "world \<Rightarrow> bool" where
  "strs_ok w = (\<forall>c \<in> set (lcfg_strs w). sname c \<noteq> None \<longrightarrow> str_ok c)"

text \<open>
  The stored names are apart when none is a prefix of the stored name of another
  registered field, of whatever category.
\<close>

definition prefix_free :: "world \<Rightarrow> bool" where
  "prefix_free w =
     (\<forall>f \<in> set (fields w). \<forall>g \<in> set (fields w).
        f \<noteq> g \<longrightarrow> \<not> prefix (stored_name w f) (stored_name w g))"

text \<open>The lines of a text, each with the newline that ends it.\<close>

fun text_lines :: "string \<Rightarrow> string list" where
  "text_lines [] = []"
| "text_lines (c # cs) =
     (if c = newline then [c] # text_lines cs
      else (case text_lines cs of [] \<Rightarrow> [[c]] | l # ls \<Rightarrow> (c # l) # ls))"

text \<open>
  The buffers that the calls of \<^verbatim>\<open>fgets\<close> in the loop of \<^verbatim>\<open>lconfigRead\<close> deliver,
  one after the other, from a stream that holds \<open>cfg\<close>.
\<close>

function fgets_lines :: "string \<Rightarrow> string list" where
  "fgets_lines cfg =
     (if cfg = [] then []
      else fgets LCONFIG_LMAX cfg # fgets_lines (drop (length (fgets LCONFIG_LMAX cfg)) cfg))"
  by pat_completeness auto
termination
proof (relation "measure length")
  fix cfg :: string
  assume "cfg \<noteq> []"
  then show "(drop (length (fgets LCONFIG_LMAX cfg)) cfg, cfg) \<in> measure length"
    by (cases cfg) (auto simp: LCONFIG_LMAX_def)
qed simp

declare fgets_lines.simps [simp del]


fun field_line :: "libc \<Rightarrow> world \<Rightarrow> field \<Rightarrow> string" where
  "field_line lib w (IntField i) = lcfgIntPrint (lcfg_ints w ! i)"
| "field_line lib w (DblField i) = lcfgDblPrint lib (lcfg_dbls w ! i)"
| "field_line lib w (StrField i) = lcfgStrPrint (lcfg_strs w ! i)"


text \<open>Every registered field holds a value within its own limits.\<close>

definition clamped :: "world \<Rightarrow> bool" where
  "clamped w =
     ((\<forall>c \<in> set (lcfg_ints w). iname c \<noteq> None \<longrightarrow> imin c \<le> icur c \<and> icur c \<le> imax c) \<and>
      (\<forall>c \<in> set (lcfg_dbls w). dname c \<noteq> None \<longrightarrow>
         dbl_le (dmin c) (dcur c) \<and> dbl_le (dcur c) (dmax c)) \<and>
      strs_ok w)"

text \<open>
  The C library converts the double of every registered field to a text of one line
  from which \<^verbatim>\<open>atof\<close> reads the same double back.
\<close>

definition g17_exact :: "libc \<Rightarrow> world \<Rightarrow> bool" where
  "g17_exact lib w =
     (\<forall>c \<in> set (lcfg_dbls w). dname c \<noteq> None \<longrightarrow>
        newline \<notin> set (printf_g17 lib (dcur c)) \<and>
        atof lib (printf_g17 lib (dcur c) @ [newline]) = dcur c)"

text \<open>
  No stored name holds a newline, and the line of every registered field, its newline
  included, fits the buffer of the reader.
\<close>

definition lines_fit :: "libc \<Rightarrow> world \<Rightarrow> bool" where
  "lines_fit lib w =
     (\<forall>f \<in> set (fields w).
        newline \<notin> set (stored_name w f) \<and> length (field_line lib w f) < LCONFIG_LMAX)"

text \<open>Every label is a format that holds no conversion but \<^verbatim>\<open>%%\<close>.\<close>

definition labels_plain :: "template \<Rightarrow> bool" where
  "labels_plain tmpl =
     (\<forall>e \<in> set tmpl. case e of
        LCONFIG_LINE t \<Rightarrow> fmt_plain (t @ [newline])
      | _ \<Rightarrow> True)"

text \<open>
  No buffer that the reader gets from what the writer prints for a label begins with a
  stored name.
\<close>

definition labels_inert :: "template \<Rightarrow> world \<Rightarrow> bool" where
  "labels_inert tmpl w =
     (\<forall>e \<in> set tmpl. case e of
        LCONFIG_LINE t \<Rightarrow>
          (\<forall>buf \<in> set (fgets_lines (fprintf0 (t @ [newline]))). \<forall>f \<in> set (fields w).
             \<not> prefix (stored_name w f) buf)
      | _ \<Rightarrow> True)"

subsection \<open>Examples\<close>

text \<open>
  The template of the header's own example (its \<^verbatim>\<open>double_a\<close> declared as a
  double), and a fragment of the C library's conversions that covers the doubles of the
  examples.
\<close>

definition example_template :: template where
  "example_template =
     [LCONFIG_LINE ''#example'',
      LCONFIG_INT 0 ''number_a'' (- 10) 10 0,
      LCONFIG_DBL 0 ''double_a'' (Fin 0) (Fin 32) (Fin 4),
      LCONFIG_LINE [],
      LCONFIG_LINE ''#foobar'',
      LCONFIG_DBL 1 ''double_b'' (Fin (- 32)) (Fin 0) (Fin (- 4)),
      LCONFIG_STR 0 ''string_a'' 32 ''ABCD'',
      LCONFIG_INT 1 ''number_b'' 10 20 15,
      LCONFIG_DBL 2 ''double_c'' (Fin 0) (Fin 1) (Fin (1 / 2))]"

definition example_libc :: libc where
  "example_libc =
     \<lparr>printf_g17 = (\<lambda>d. if d = Fin 4 then ''4'' else if d = Fin (- 4) then ''-4''
                        else if d = Fin (1 / 2) then ''0.5'' else ''0''),
      atof = (\<lambda>s. if prefix ''4'' s then Fin 4 else if prefix ''-4'' s then Fin (- 4)
                   else if prefix ''0.5'' s then Fin (1 / 2) else Fin 0)\<rparr>"

text \<open>The example at program start, with no file yet in a directory it may write to.\<close>

definition example_world :: world where
  "example_world = lcfg_start example_template None True True"

text \<open>A field whose declared default lies outside its bounds.\<close>

definition wide_default_world :: world where
  "wide_default_world = lcfg_start [LCONFIG_INT 0 ''level'' 0 10 50] None True True"

text \<open>A field whose declared bounds are crossed.\<close>

definition crossed_world :: world where
  "crossed_world = lcfg_start [LCONFIG_INT 0 ''level'' 10 0 5] None True True"

text \<open>A string field whose declared default has two lines, beside an ordinary one.\<close>

definition two_line_world :: world where
  "two_line_world =
     lcfg_start
       [LCONFIG_STR 0 ''motd'' 32 (''hello'' @ [newline] @ ''world''),
        LCONFIG_STR 1 ''user'' 8 ''bob''] None True True"

text \<open>
  Two integer fields, the declared name of the first a prefix of the declared name of
  the second, and a file with one line.
\<close>

definition vol_template :: template where
  "vol_template = [LCONFIG_INT 0 ''vol'' 0 10 5, LCONFIG_INT 1 ''vol max'' 0 10 7]"

definition vol_world :: world where
  "vol_world = lcfg_start vol_template (Some (''vol max 3'' @ [newline])) True True"

text \<open>A label that begins like the line of a field, printed behind that field.\<close>

definition label_template :: template where
  "label_template =
     [LCONFIG_INT 0 ''number_a'' (- 10) 10 5,
      LCONFIG_LINE ''number_a is the first number'']"

definition label_world :: world where
  "label_world = lcfg_start label_template None True True"

text \<open>
  A string field that allows 600 characters, set to 600 times \<^verbatim>\<open>x\<close>: its line is
  longer than the buffer of the reader.
\<close>

definition long_template :: template where
  "long_template = [LCONFIG_STR 0 ''s'' 600 []]"

definition long_world :: world where
  "long_world =
     lconfigSetString (lcfg_start long_template None True True) 0 (replicate 600 CHR ''x'')"

text \<open>
  A label whose format holds \<^verbatim>\<open>%%\<close>, behind a field whose declared name is
  \<^verbatim>\<open>%x\<close>.
\<close>

definition percent_template :: template where
  "percent_template = [LCONFIG_INT 0 ''%x'' (- 10) 10 5, LCONFIG_LINE ''%%x 7'']"

definition percent_world :: world where
  "percent_world = lcfg_start percent_template None True True"

text \<open>The example after one field of each category was set to another value.\<close>

definition tuned_world :: world where
  "tuned_world =
     lconfigSetString (lconfigSetDouble (lconfigSetInt example_world 0 7) 1 (Fin 0)) 0 ''hello''"

text \<open>
  A file of two lines for the example, and a file of one line of 523 characters, longer
  than the buffer of the reader.
\<close>

definition two_lines :: string where
  "two_lines = ''number_a 3'' @ [newline] @ ''number_b 12'' @ [newline]"

definition long_line :: string where
  "long_line = ''number_a 5'' @ replicate 501 CHR ''x'' @ ''number_b 12'' @ [newline]"

section \<open>Properties\<close>

subsection \<open>The tables of the examples\<close>

lemma example_ints:
  "lcfg_ints example_world =
     [\<lparr>iname = Some ''number_a '', imin = - 10, imax = 10, idef = 0, icur = 0\<rparr>,
      \<lparr>iname = Some ''number_b '', imin = 10, imax = 20, idef = 15, icur = 15\<rparr>]"
  by (simp add: example_world_def example_template_def lcfg_start_def designate_def)

lemma example_dbls:
  "lcfg_dbls example_world =
     [\<lparr>dname = Some ''double_a '', dmin = Fin 0, dmax = Fin 32, ddef = Fin 4, dcur = Fin 4\<rparr>,
      \<lparr>dname = Some ''double_b '', dmin = Fin (- 32), dmax = Fin 0, ddef = Fin (- 4),
         dcur = Fin (- 4)\<rparr>,
      \<lparr>dname = Some ''double_c '', dmin = Fin 0, dmax = Fin 1, ddef = Fin (1 / 2),
         dcur = Fin (1 / 2)\<rparr>]"
  by (simp add: example_world_def example_template_def lcfg_start_def designate_def)

lemma example_strs:
  "lcfg_strs example_world =
     [\<lparr>sname = Some ''string_a '', slen = 32, sdef = ''ABCD'', scur = ''ABCD''\<rparr>]"
  by (simp add: example_world_def example_template_def lcfg_start_def designate_def)

lemma example_file:
  "disk example_world = None" "r_ok example_world" "w_ok example_world"
  by (simp_all add: example_world_def lcfg_start_def)

lemma wide_default_ints:
  "lcfg_ints wide_default_world =
     [\<lparr>iname = Some ''level '', imin = 0, imax = 10, idef = 50, icur = 50\<rparr>]"
  by (simp add: wide_default_world_def lcfg_start_def designate_def)

lemma crossed_ints:
  "lcfg_ints crossed_world =
     [\<lparr>iname = Some ''level '', imin = 10, imax = 0, idef = 5, icur = 5\<rparr>]"
  by (simp add: crossed_world_def lcfg_start_def designate_def)

lemma two_line_strs:
  "lcfg_strs two_line_world =
     [\<lparr>sname = Some ''motd '', slen = 32, sdef = ''hello'' @ [newline] @ ''world'',
         scur = ''hello'' @ [newline] @ ''world''\<rparr>,
      \<lparr>sname = Some ''user '', slen = 8, sdef = ''bob'', scur = ''bob''\<rparr>]"
  by (simp add: two_line_world_def lcfg_start_def designate_def)

lemma vol_ints:
  "lcfg_ints vol_world =
     [\<lparr>iname = Some ''vol '', imin = 0, imax = 10, idef = 5, icur = 5\<rparr>,
      \<lparr>iname = Some ''vol max '', imin = 0, imax = 10, idef = 7, icur = 7\<rparr>]"
  "lcfg_dbls vol_world = [zero_dbl]" "lcfg_strs vol_world = [zero_str]"
  by (simp_all add: vol_world_def vol_template_def lcfg_start_def designate_def)

lemma vol_file:
  "disk vol_world = Some (''vol max 3'' @ [newline])" "r_ok vol_world" "w_ok vol_world"
  by (simp_all add: vol_world_def lcfg_start_def)

subsection \<open>The setters\<close>

lemma lcfgIntSet_range:
  "imin c \<le> imax c \<Longrightarrow> imin c \<le> icur (lcfgIntSet c v) \<and> icur (lcfgIntSet c v) \<le> imax c"
  by (simp add: lcfgIntSet_def Let_def)

lemma dbl_less_trans: "dbl_less a b \<Longrightarrow> dbl_less b c \<Longrightarrow> dbl_less a c"
  by (cases a; cases b; cases c) auto

lemma dbl_less_irrefl: "\<not> dbl_less a a"
  by (cases a) auto

lemma dbl_less_asym: "dbl_less a b \<Longrightarrow> \<not> dbl_less b a"
  by (cases a; cases b) auto

lemma dbl_le_refl: "a \<noteq> NaN \<Longrightarrow> dbl_le a a"
  by (simp add: dbl_le_def dbl_less_irrefl)

lemma lcfgDblSet_range:
  assumes "dbl_le (dmin c) (dmax c)" and "v \<noteq> NaN"
  shows "dbl_le (dmin c) (dcur (lcfgDblSet c v)) \<and> dbl_le (dcur (lcfgDblSet c v)) (dmax c)"
  using assms dbl_less_asym [of v "dmin c"] dbl_less_asym [of "dmax c" v]
  by (auto simp: lcfgDblSet_def Let_def dbl_le_def dbl_less_irrefl)

lemma lcfgIntSet_frame [simp]:
  "iname (lcfgIntSet c v) = iname c" "imin (lcfgIntSet c v) = imin c"
  "imax (lcfgIntSet c v) = imax c" "idef (lcfgIntSet c v) = idef c"
  by (simp_all add: lcfgIntSet_def Let_def)

lemma lcfgDblSet_frame [simp]:
  "dname (lcfgDblSet c v) = dname c" "dmin (lcfgDblSet c v) = dmin c"
  "dmax (lcfgDblSet c v) = dmax c" "ddef (lcfgDblSet c v) = ddef c"
  by (simp_all add: lcfgDblSet_def Let_def)

lemma lcfgStrSet_frame [simp]:
  "sname (lcfgStrSet c v) = sname c" "slen (lcfgStrSet c v) = slen c"
  "sdef (lcfgStrSet c v) = sdef c"
  by (simp_all add: lcfgStrSet_def Let_def)

lemma lcfgStrSet_cur:
  "scur (lcfgStrSet c v) = take (slen c) (takeWhile (\<lambda>x. x \<noteq> newline) v)"
proof -
  have "take (length (takeWhile (\<lambda>x. x \<noteq> newline) v)) v = takeWhile (\<lambda>x. x \<noteq> newline) v"
    by (metis append_eq_conv_conj takeWhile_dropWhile_id)
  moreover have "take (slen c) v = take (slen c) (takeWhile (\<lambda>x. x \<noteq> newline) v)"
    if "slen c < length (takeWhile (\<lambda>x. x \<noteq> newline) v)"
    using that by (metis append_eq_conv_conj less_imp_le_nat takeWhile_dropWhile_id take_append
        diff_is_0_eq take_0 append_Nil2)
  ultimately show ?thesis
    by (simp add: lcfgStrSet_def Let_def strcspn_nl_def)
qed

lemma take_takeWhile_swap: "take n (takeWhile P xs) = takeWhile P (take n xs)"
proof (induction xs arbitrary: n)
  case Nil
  show ?case by simp
next
  case (Cons x xs)
  then show ?case by (cases n) simp_all
qed

lemma lcfgStrSet_ok: "str_ok (lcfgStrSet c v)"
  unfolding str_ok_def lcfgStrSet_cur lcfgStrSet_frame
  by (auto dest: in_set_takeD set_takeWhileD)

subsection \<open>The accessors on one slot\<close>

lemma int_valid_nth: "int_valid w i \<Longrightarrow> nat i < length (lcfg_ints w)"
  by (simp add: int_valid_def nat_less_iff)

lemma dbl_valid_nth: "dbl_valid w i \<Longrightarrow> nat i < length (lcfg_dbls w)"
  by (simp add: dbl_valid_def nat_less_iff)

lemma str_valid_nth: "str_valid w i \<Longrightarrow> nat i < length (lcfg_strs w)"
  by (simp add: str_valid_def nat_less_iff)

lemma int_valid_set [simp]: "int_valid (lconfigSetInt w i v) k = int_valid w k"
  by (cases "nat k = nat i")
    (auto simp: lconfigSetInt_def int_valid_def nat_less_iff)

lemma dbl_valid_set [simp]: "dbl_valid (lconfigSetDouble w i v) k = dbl_valid w k"
  by (cases "nat k = nat i")
    (auto simp: lconfigSetDouble_def dbl_valid_def nat_less_iff)

lemma str_valid_set [simp]: "str_valid (lconfigSetString w i v) k = str_valid w k"
  by (cases "nat k = nat i")
    (auto simp: lconfigSetString_def str_valid_def nat_less_iff)

lemma get_set_int:
  "int_valid w i \<Longrightarrow>
     lconfigGetInt (lconfigSetInt w i v) i = icur (lcfgIntSet (lcfg_ints w ! nat i) v)"
  using int_valid_set [of w i v i] int_valid_nth [of w i]
  by (simp add: lconfigGetInt_def) (simp add: lconfigSetInt_def)

lemma get_set_dbl:
  "dbl_valid w i \<Longrightarrow>
     lconfigGetDouble (lconfigSetDouble w i v) i = dcur (lcfgDblSet (lcfg_dbls w ! nat i) v)"
  using dbl_valid_set [of w i v i] dbl_valid_nth [of w i]
  by (simp add: lconfigGetDouble_def) (simp add: lconfigSetDouble_def)

lemma get_set_str:
  "str_valid w i \<Longrightarrow>
     lconfigGetString (lconfigSetString w i v) i =
       Some (scur (lcfgStrSet (lcfg_strs w ! nat i) v))"
  using str_valid_set [of w i v i] str_valid_nth [of w i]
  by (simp add: lconfigGetString_def) (simp add: lconfigSetString_def)

subsection \<open>Set, then Get\<close>

text \<open>
  C1, as amended. For a registered integer field whose bounds are in order
  (\<open>min \<le> max\<close>), \<^verbatim>\<open>lconfigGetInt\<close> after \<^verbatim>\<open>lconfigSetInt\<close> of any value lies
  within the bounds. For a registered double field whose bounds are in order, the same
  holds of \<^verbatim>\<open>lconfigGetDouble\<close> after \<^verbatim>\<open>lconfigSetDouble\<close> of any value that is
  not NaN, the infinities included.
\<close>

theorem set_get_within_bounds:
  "(int_valid w i \<and> imin (lcfg_ints w ! nat i) \<le> imax (lcfg_ints w ! nat i) \<longrightarrow>
      imin (lcfg_ints w ! nat i) \<le> lconfigGetInt (lconfigSetInt w i v) i \<and>
      lconfigGetInt (lconfigSetInt w i v) i \<le> imax (lcfg_ints w ! nat i)) \<and>
   (dbl_valid w j \<and> dbl_le (dmin (lcfg_dbls w ! nat j)) (dmax (lcfg_dbls w ! nat j)) \<and>
    x \<noteq> NaN \<longrightarrow>
      dbl_le (dmin (lcfg_dbls w ! nat j)) (lconfigGetDouble (lconfigSetDouble w j x) j) \<and>
      dbl_le (lconfigGetDouble (lconfigSetDouble w j x) j) (dmax (lcfg_dbls w ! nat j)))"
proof (intro conjI impI)
  assume a: "int_valid w i \<and> imin (lcfg_ints w ! nat i) \<le> imax (lcfg_ints w ! nat i)"
  then have get: "lconfigGetInt (lconfigSetInt w i v) i = icur (lcfgIntSet (lcfg_ints w ! nat i) v)"
    by (simp add: get_set_int)
  from a lcfgIntSet_range [of "lcfg_ints w ! nat i" v]
  show "imin (lcfg_ints w ! nat i) \<le> lconfigGetInt (lconfigSetInt w i v) i"
    and "lconfigGetInt (lconfigSetInt w i v) i \<le> imax (lcfg_ints w ! nat i)"
    unfolding get by simp_all
next
  assume a: "dbl_valid w j \<and> dbl_le (dmin (lcfg_dbls w ! nat j)) (dmax (lcfg_dbls w ! nat j)) \<and>
    x \<noteq> NaN"
  then have get: "lconfigGetDouble (lconfigSetDouble w j x) j = dcur (lcfgDblSet (lcfg_dbls w ! nat j) x)"
    by (simp add: get_set_dbl)
  from a lcfgDblSet_range [of "lcfg_dbls w ! nat j" x]
  show "dbl_le (dmin (lcfg_dbls w ! nat j)) (lconfigGetDouble (lconfigSetDouble w j x) j)"
    and "dbl_le (lconfigGetDouble (lconfigSetDouble w j x) j) (dmax (lcfg_dbls w ! nat j))"
    unfolding get by simp_all
qed

text \<open>
  In the example: \<^verbatim>\<open>number_a\<close> set to 999 reads 10, and \<^verbatim>\<open>double_c\<close> set to
  plus infinity reads 1.
\<close>

theorem set_get_within_bounds_witness:
  "int_valid example_world 0 \<and>
   lconfigGetInt (lconfigSetInt example_world 0 999) 0 = 10 \<and>
   - 10 \<le> lconfigGetInt (lconfigSetInt example_world 0 999) 0 \<and>
   lconfigGetInt (lconfigSetInt example_world 0 999) 0 \<le> 10 \<and>
   dbl_valid example_world 2 \<and>
   lconfigGetDouble (lconfigSetDouble example_world 2 PInf) 2 = Fin 1 \<and>
   dbl_le (Fin 0) (lconfigGetDouble (lconfigSetDouble example_world 2 PInf) 2) \<and>
   dbl_le (lconfigGetDouble (lconfigSetDouble example_world 2 PInf) 2) (Fin 1)"
  using set_get_within_bounds [of example_world 0 999 2 PInf]
  by (simp add: int_valid_def dbl_valid_def example_ints example_dbls dbl_le_def
      lconfigGetInt_def lconfigSetInt_def lcfgIntSet_def
      lconfigGetDouble_def lconfigSetDouble_def lcfgDblSet_def)

text \<open>
  C1 as stated fails: NaN passes both tests of \<^verbatim>\<open>lcfgDblSet\<close> and is stored, so
  \<^verbatim>\<open>double_c\<close>, declared with bounds 0 and 1, reads NaN after it was set to NaN. And a
  field declared with crossed bounds, 10 and 0, reads 0 after it was set to 5, below its
  declared minimum.
\<close>

theorem set_get_counterexample:
  "dbl_valid example_world 2 \<and>
   lconfigGetDouble (lconfigSetDouble example_world 2 NaN) 2 = NaN \<and>
   \<not> dbl_le (lconfigGetDouble (lconfigSetDouble example_world 2 NaN) 2)
       (dmax (lcfg_dbls example_world ! 2)) \<and>
   int_valid crossed_world 0 \<and>
   lconfigGetInt (lconfigSetInt crossed_world 0 5) 0 = 0 \<and>
   \<not> imin (lcfg_ints crossed_world ! 0) \<le> lconfigGetInt (lconfigSetInt crossed_world 0 5) 0"
  by (simp add: int_valid_def dbl_valid_def example_dbls crossed_ints dbl_le_def
      lconfigGetInt_def lconfigSetInt_def lcfgIntSet_def
      lconfigGetDouble_def lconfigSetDouble_def lcfgDblSet_def)

subsection \<open>Get of an ID that is not registered\<close>

text \<open>
  C2, as amended. For an ID that is not registered in its category, \<^verbatim>\<open>lconfigGetInt\<close>
  returns -1, \<^verbatim>\<open>lconfigGetDouble\<close> returns NaN and \<^verbatim>\<open>lconfigGetString\<close> returns
  NULL. NULL differs from what \<^verbatim>\<open>lconfigGetString\<close> returns for every registered
  string field. -1 differs from the value of a registered integer field whenever that
  value lies within bounds that exclude -1, and NaN differs from the value of a
  registered double field whenever that value is at or above the field's minimum.
\<close>

theorem get_unregistered:
  "(\<not> int_valid w i \<longrightarrow> lconfigGetInt w i = - 1) \<and>
   (\<not> dbl_valid w i \<longrightarrow> lconfigGetDouble w i = NaN) \<and>
   (\<not> str_valid w i \<longrightarrow> lconfigGetString w i = None) \<and>
   (str_valid w j \<longrightarrow> lconfigGetString w j \<noteq> None) \<and>
   (int_valid w j \<and> imin (lcfg_ints w ! nat j) \<le> icur (lcfg_ints w ! nat j) \<and>
    icur (lcfg_ints w ! nat j) \<le> imax (lcfg_ints w ! nat j) \<and>
    (imax (lcfg_ints w ! nat j) < - 1 \<or> - 1 < imin (lcfg_ints w ! nat j)) \<longrightarrow>
      lconfigGetInt w j \<noteq> - 1) \<and>
   (dbl_valid w j \<and> dbl_le (dmin (lcfg_dbls w ! nat j)) (dcur (lcfg_dbls w ! nat j)) \<longrightarrow>
      lconfigGetDouble w j \<noteq> NaN)"
  by (auto simp: lconfigGetInt_def lconfigGetDouble_def lconfigGetString_def dbl_le_def)

text \<open>
  In the example no category has a field 7; \<^verbatim>\<open>string_a\<close> is string 0,
  \<^verbatim>\<open>number_b\<close>, with bounds 10 and 20, is integer 1, and \<^verbatim>\<open>double_c\<close> is double 2.
\<close>

theorem get_unregistered_witness:
  "\<not> int_valid example_world 7 \<and> lconfigGetInt example_world 7 = - 1 \<and>
   \<not> dbl_valid example_world 7 \<and> lconfigGetDouble example_world 7 = NaN \<and>
   \<not> str_valid example_world 7 \<and> lconfigGetString example_world 7 = None \<and>
   str_valid example_world 0 \<and> lconfigGetString example_world 0 \<noteq> None \<and>
   int_valid example_world 1 \<and> lconfigGetInt example_world 1 \<noteq> - 1 \<and>
   dbl_valid example_world 2 \<and> lconfigGetDouble example_world 2 \<noteq> NaN"
  using get_unregistered [of example_world 7 0] get_unregistered [of example_world 7 1]
    get_unregistered [of example_world 7 2]
  by (simp add: int_valid_def dbl_valid_def str_valid_def example_ints example_dbls
      example_strs dbl_le_def)

text \<open>
  C2 as stated fails: -1 is a value a registered integer field can hold. \<^verbatim>\<open>number_a\<close>
  has bounds -10 and 10; once it is set to -1, \<^verbatim>\<open>lconfigGetInt\<close> returns for it what it
  returns for the unregistered ID 7.
\<close>

theorem get_unregistered_counterexample:
  "int_valid (lconfigSetInt example_world 0 (- 1)) 0 \<and>
   \<not> int_valid (lconfigSetInt example_world 0 (- 1)) 7 \<and>
   lconfigGetInt (lconfigSetInt example_world 0 (- 1)) 0 =
   lconfigGetInt (lconfigSetInt example_world 0 (- 1)) 7"
  by (simp add: int_valid_def example_ints lconfigGetInt_def lconfigSetInt_def lcfgIntSet_def)

subsection \<open>Set and Get of a string\<close>

text \<open>
  C6. For a registered string field and any string \<open>s\<close>, \<^verbatim>\<open>lconfigGetString\<close> after
  \<^verbatim>\<open>lconfigSetString\<close> returns the part of \<open>s\<close> before its first newline, cut to the
  field's maximum length; that is also the first maximum-length characters of \<open>s\<close> cut
  before the first newline, and it is no longer than the maximum length.
\<close>

theorem set_get_string:
  "str_valid w i \<Longrightarrow>
     lconfigGetString (lconfigSetString w i s) i =
       Some (take (slen (lcfg_strs w ! nat i)) (takeWhile (\<lambda>c. c \<noteq> newline) s)) \<and>
     lconfigGetString (lconfigSetString w i s) i =
       Some (takeWhile (\<lambda>c. c \<noteq> newline) (take (slen (lcfg_strs w ! nat i)) s)) \<and>
     length (the (lconfigGetString (lconfigSetString w i s) i)) \<le> slen (lcfg_strs w ! nat i)"
proof -
  assume "str_valid w i"
  then have get: "lconfigGetString (lconfigSetString w i s) i =
      Some (take (slen (lcfg_strs w ! nat i)) (takeWhile (\<lambda>c. c \<noteq> newline) s))"
    by (simp add: get_set_str lcfgStrSet_cur)
  have "length (take (slen (lcfg_strs w ! nat i)) (takeWhile (\<lambda>c. c \<noteq> newline) s))
      \<le> slen (lcfg_strs w ! nat i)"
    by simp
  then show ?thesis
    unfolding get option.sel
    by (intro conjI) (simp_all only: take_takeWhile_swap)
qed

text \<open>
  The spec's example: \<^verbatim>\<open>string_a\<close>, of maximum length 32, set to forty \<^verbatim>\<open>x\<close>, reads
  thirty-two of them; set to two lines, it reads the first.
\<close>

theorem set_get_string_witness:
  "str_valid example_world 0 \<and>
   lconfigGetString (lconfigSetString example_world 0 (replicate 40 CHR ''x'')) 0 =
     Some (replicate 32 CHR ''x'') \<and>
   lconfigGetString (lconfigSetString example_world 0 (''one'' @ [newline] @ ''two'')) 0 =
     Some ''one''"
  using set_get_string [of example_world 0 "replicate 40 CHR ''x''"]
    set_get_string [of example_world 0 "''one'' @ [newline] @ ''two''"]
  by (simp add: str_valid_def example_strs)

subsection \<open>Values the setters leave as they are\<close>

lemma lcfgIntSet_id: "imin c \<le> v \<Longrightarrow> v \<le> imax c \<Longrightarrow> icur (lcfgIntSet c v) = v"
  by (simp add: lcfgIntSet_def Let_def)

lemma lcfgDblSet_id: "dbl_le (dmin c) v \<Longrightarrow> dbl_le v (dmax c) \<Longrightarrow> dcur (lcfgDblSet c v) = v"
  by (simp add: lcfgDblSet_def Let_def dbl_le_def)

lemma lcfgStrSet_id:
  "newline \<notin> set v \<Longrightarrow> length v \<le> slen c \<Longrightarrow> scur (lcfgStrSet c v) = v"
proof -
  assume "newline \<notin> set v" and "length v \<le> slen c"
  from \<open>newline \<notin> set v\<close> have tw: "takeWhile (\<lambda>x. x \<noteq> newline) v = v"
    by (auto simp: takeWhile_eq_all_conv)
  from \<open>length v \<le> slen c\<close> show ?thesis
    unfolding lcfgStrSet_cur tw by simp
qed

subsection \<open>Reset\<close>

lemma int_valid_default [simp]: "int_valid (lconfigDefault w) i = int_valid w i"
  by (auto simp: int_valid_def lconfigDefault_def nat_less_iff split: if_splits)

lemma dbl_valid_default [simp]: "dbl_valid (lconfigDefault w) i = dbl_valid w i"
  by (auto simp: dbl_valid_def lconfigDefault_def nat_less_iff split: if_splits)

lemma str_valid_default [simp]: "str_valid (lconfigDefault w) i = str_valid w i"
  by (auto simp: str_valid_def lconfigDefault_def nat_less_iff split: if_splits)

lemma get_default_int:
  "int_valid w i \<Longrightarrow>
     lconfigGetInt (lconfigDefault w) i =
       icur (lcfgIntSet (lcfg_ints w ! nat i) (idef (lcfg_ints w ! nat i)))"
  using int_valid_nth [of w i]
  by (simp add: lconfigGetInt_def) (simp add: lconfigDefault_def int_valid_def)

lemma get_default_dbl:
  "dbl_valid w i \<Longrightarrow>
     lconfigGetDouble (lconfigDefault w) i =
       dcur (lcfgDblSet (lcfg_dbls w ! nat i) (ddef (lcfg_dbls w ! nat i)))"
  using dbl_valid_nth [of w i]
  by (simp add: lconfigGetDouble_def) (simp add: lconfigDefault_def dbl_valid_def)

lemma get_default_str:
  "str_valid w i \<Longrightarrow>
     lconfigGetString (lconfigDefault w) i =
       Some (scur (lcfgStrSet (lcfg_strs w ! nat i) (sdef (lcfg_strs w ! nat i))))"
  using str_valid_nth [of w i]
  by (simp add: lconfigGetString_def) (simp add: lconfigDefault_def str_valid_def)

text \<open>
  C7, as amended. After \<^verbatim>\<open>lconfigDefault\<close>, Get returns for every registered field
  what the setter of its category makes of the declared default, and that is the
  declared default itself whenever it lies within the field's own limits: between
  \<open>min\<close> and \<open>max\<close> for an integer or a double, without a newline and no longer than
  the maximum length for a string. The file and the access to it are as they were.
\<close>

theorem default_restores:
  "(int_valid w i \<longrightarrow>
      lconfigGetInt (lconfigDefault w) i =
        icur (lcfgIntSet (lcfg_ints w ! nat i) (idef (lcfg_ints w ! nat i))) \<and>
      (imin (lcfg_ints w ! nat i) \<le> idef (lcfg_ints w ! nat i) \<and>
       idef (lcfg_ints w ! nat i) \<le> imax (lcfg_ints w ! nat i) \<longrightarrow>
         lconfigGetInt (lconfigDefault w) i = idef (lcfg_ints w ! nat i))) \<and>
   (dbl_valid w i \<longrightarrow>
      lconfigGetDouble (lconfigDefault w) i =
        dcur (lcfgDblSet (lcfg_dbls w ! nat i) (ddef (lcfg_dbls w ! nat i))) \<and>
      (dbl_le (dmin (lcfg_dbls w ! nat i)) (ddef (lcfg_dbls w ! nat i)) \<and>
       dbl_le (ddef (lcfg_dbls w ! nat i)) (dmax (lcfg_dbls w ! nat i)) \<longrightarrow>
         lconfigGetDouble (lconfigDefault w) i = ddef (lcfg_dbls w ! nat i))) \<and>
   (str_valid w i \<longrightarrow>
      lconfigGetString (lconfigDefault w) i =
        Some (scur (lcfgStrSet (lcfg_strs w ! nat i) (sdef (lcfg_strs w ! nat i)))) \<and>
      (newline \<notin> set (sdef (lcfg_strs w ! nat i)) \<and>
       length (sdef (lcfg_strs w ! nat i)) \<le> slen (lcfg_strs w ! nat i) \<longrightarrow>
         lconfigGetString (lconfigDefault w) i = Some (sdef (lcfg_strs w ! nat i)))) \<and>
   disk (lconfigDefault w) = disk w \<and>
   r_ok (lconfigDefault w) = r_ok w \<and>
   w_ok (lconfigDefault w) = w_ok w"
proof (intro conjI impI)
  show "disk (lconfigDefault w) = disk w" "r_ok (lconfigDefault w) = r_ok w"
    "w_ok (lconfigDefault w) = w_ok w"
    by (simp_all add: lconfigDefault_def)
qed (simp_all add: get_default_int get_default_dbl get_default_str
    lcfgIntSet_id lcfgDblSet_id lcfgStrSet_id)

text \<open>
  In the example, after each kind of field was set to something else, the reset brings
  back 0 for \<^verbatim>\<open>number_a\<close>, 0.5 for \<^verbatim>\<open>double_c\<close> and \<^verbatim>\<open>ABCD\<close> for
  \<^verbatim>\<open>string_a\<close>.
\<close>

theorem default_restores_witness:
  "int_valid (lconfigSetInt example_world 0 7) 0 \<and>
   lconfigGetInt (lconfigSetInt example_world 0 7) 0 = 7 \<and>
   lconfigGetInt (lconfigDefault (lconfigSetInt example_world 0 7)) 0 = 0 \<and>
   dbl_valid (lconfigSetDouble example_world 2 (Fin 1)) 2 \<and>
   lconfigGetDouble (lconfigDefault (lconfigSetDouble example_world 2 (Fin 1))) 2 = Fin (1 / 2) \<and>
   str_valid (lconfigSetString example_world 0 ''xyz'') 0 \<and>
   lconfigGetString (lconfigDefault (lconfigSetString example_world 0 ''xyz'')) 0 = Some ''ABCD''"
  using default_restores [of "lconfigSetInt example_world 0 7" 0]
    default_restores [of "lconfigSetDouble example_world 2 (Fin 1)" 2]
    default_restores [of "lconfigSetString example_world 0 ''xyz''" 0]
  by (simp add: int_valid_def dbl_valid_def str_valid_def example_ints example_dbls
      example_strs dbl_le_def lconfigGetInt_def lconfigSetInt_def lcfgIntSet_def
      lconfigGetDouble_def lconfigSetDouble_def lcfgDblSet_def
      lconfigGetString_def lconfigSetString_def lcfgStrSet_def strcspn_nl_def
      lconfigDefault_def Let_def)

text \<open>
  C7 as stated fails: the table is initialised with the declared default as it is, and
  \<^verbatim>\<open>lconfigDefault\<close> stores it through the clamping setter. A field declared with
  bounds 0 and 10 and default 50 reads 50 at start and 10 after the reset.
\<close>

theorem default_restores_counterexample:
  "int_valid wide_default_world 0 \<and>
   idef (lcfg_ints wide_default_world ! 0) = 50 \<and>
   lconfigGetInt wide_default_world 0 = 50 \<and>
   lconfigGetInt (lconfigDefault wide_default_world) 0 = 10"
  by (simp add: int_valid_def wide_default_ints lconfigGetInt_def lconfigDefault_def
      lcfgIntSet_def)

subsection \<open>The writer leaves the store alone\<close>

text \<open>
  C8. \<^verbatim>\<open>lconfigWrite\<close> leaves the three tables as they were, whether the file opened
  or not; it returns 0 when the file opened and 1 when it did not.
\<close>

theorem write_keeps_store:
  "lcfg_ints (snd (lconfigWrite lib tmpl w)) = lcfg_ints w \<and>
   lcfg_dbls (snd (lconfigWrite lib tmpl w)) = lcfg_dbls w \<and>
   lcfg_strs (snd (lconfigWrite lib tmpl w)) = lcfg_strs w \<and>
   fst (lconfigWrite lib tmpl w) = (if w_ok w then 0 else 1)"
  by (simp add: lconfigWrite_def)

subsection \<open>The reader's failure\<close>

text \<open>
  C5. When the file does not open, \<^verbatim>\<open>lconfigRead\<close> returns 1 and the whole state is
  as it was; and whenever \<^verbatim>\<open>lconfigRead\<close> returns something other than 0, the file
  did not open.
\<close>

theorem read_unopenable:
  "(fopen_r w = None \<longrightarrow> lconfigRead lib w = (1, w)) \<and>
   (fst (lconfigRead lib w) \<noteq> 0 \<longrightarrow> fopen_r w = None)"
  by (simp add: lconfigRead_def split: option.splits)

text \<open>
  The example starts with no file: the read fails and changes nothing. With an empty
  file in place the read returns 0.
\<close>

theorem read_unopenable_witness:
  "fopen_r example_world = None \<and>
   lconfigRead example_libc example_world = (1, example_world) \<and>
   fopen_r (example_world\<lparr>disk := Some []\<rparr>) \<noteq> None \<and>
   fst (lconfigRead example_libc (example_world\<lparr>disk := Some []\<rparr>)) = 0"
  using read_unopenable [of example_world example_libc]
    read_unopenable [of "example_world\<lparr>disk := Some []\<rparr>" example_libc]
  by (auto simp: fopen_r_def example_file)

subsection \<open>One buffer\<close>

lemma strncmp_eq_prefix: "strncmp_eq name buf (length name) = prefix name buf"
  unfolding strncmp_eq_def
  by (metis append_eq_conv_conj prefix_def take_all_iff order_refl take_is_prefix)

lemma lcfgIntRead_frame [simp]:
  "iname (lcfgIntRead c buf) = iname c" "imin (lcfgIntRead c buf) = imin c"
  "imax (lcfgIntRead c buf) = imax c" "idef (lcfgIntRead c buf) = idef c"
  by (simp_all add: lcfgIntRead_def split: option.splits)

lemma lcfgDblRead_frame [simp]:
  "dname (lcfgDblRead lib c buf) = dname c" "dmin (lcfgDblRead lib c buf) = dmin c"
  "dmax (lcfgDblRead lib c buf) = dmax c" "ddef (lcfgDblRead lib c buf) = ddef c"
  by (simp_all add: lcfgDblRead_def split: option.splits)

lemma lcfgStrRead_frame [simp]:
  "sname (lcfgStrRead c buf) = sname c" "slen (lcfgStrRead c buf) = slen c"
  "sdef (lcfgStrRead c buf) = sdef c"
  by (simp_all add: lcfgStrRead_def split: option.splits)

lemma lcfgIntRead_unmatched: "iname c = Some n \<Longrightarrow> \<not> prefix n buf \<Longrightarrow> lcfgIntRead c buf = c"
  by (simp add: lcfgIntRead_def strncmp_eq_prefix)

lemma lcfgDblRead_unmatched: "dname c = Some n \<Longrightarrow> \<not> prefix n buf \<Longrightarrow> lcfgDblRead lib c buf = c"
  by (simp add: lcfgDblRead_def strncmp_eq_prefix)

lemma lcfgStrRead_unmatched: "sname c = Some n \<Longrightarrow> \<not> prefix n buf \<Longrightarrow> lcfgStrRead c buf = c"
  by (simp add: lcfgStrRead_def strncmp_eq_prefix)


lemma read_txt_tables:
  "length (lcfg_ints (read_txt lib w buf)) = length (lcfg_ints w)"
  "length (lcfg_dbls (read_txt lib w buf)) = length (lcfg_dbls w)"
  "length (lcfg_strs (read_txt lib w buf)) = length (lcfg_strs w)"
  "disk (read_txt lib w buf) = disk w"
  "r_ok (read_txt lib w buf) = r_ok w"
  "w_ok (read_txt lib w buf) = w_ok w"
  by (simp_all add: read_txt_def)

lemma read_txt_int:
  "i < length (lcfg_ints w) \<Longrightarrow>
     lcfg_ints (read_txt lib w buf) ! i =
       (if iname (lcfg_ints w ! i) \<noteq> None then lcfgIntRead (lcfg_ints w ! i) buf
        else lcfg_ints w ! i)"
  by (simp add: read_txt_def)

lemma read_txt_dbl:
  "i < length (lcfg_dbls w) \<Longrightarrow>
     lcfg_dbls (read_txt lib w buf) ! i =
       (if dname (lcfg_dbls w ! i) \<noteq> None then lcfgDblRead lib (lcfg_dbls w ! i) buf
        else lcfg_dbls w ! i)"
  by (simp add: read_txt_def)

lemma read_txt_str:
  "i < length (lcfg_strs w) \<Longrightarrow>
     lcfg_strs (read_txt lib w buf) ! i =
       (if sname (lcfg_strs w ! i) \<noteq> None then lcfgStrRead (lcfg_strs w ! i) buf
        else lcfg_strs w ! i)"
  by (simp add: read_txt_def)

lemma int_valid_alt:
  "int_valid w i = (0 \<le> i \<and> nat i < length (lcfg_ints w) \<and> iname (lcfg_ints w ! nat i) \<noteq> None)"
  by (auto simp: int_valid_def nat_less_iff)

lemma dbl_valid_alt:
  "dbl_valid w i = (0 \<le> i \<and> nat i < length (lcfg_dbls w) \<and> dname (lcfg_dbls w ! nat i) \<noteq> None)"
  by (auto simp: dbl_valid_def nat_less_iff)

lemma str_valid_alt:
  "str_valid w i = (0 \<le> i \<and> nat i < length (lcfg_strs w) \<and> sname (lcfg_strs w ! nat i) \<noteq> None)"
  by (auto simp: str_valid_def nat_less_iff)

lemma read_txt_names:
  "i < length (lcfg_ints w) \<Longrightarrow> iname (lcfg_ints (read_txt lib w buf) ! i) = iname (lcfg_ints w ! i)"
  "j < length (lcfg_dbls w) \<Longrightarrow> dname (lcfg_dbls (read_txt lib w buf) ! j) = dname (lcfg_dbls w ! j)"
  "k < length (lcfg_strs w) \<Longrightarrow> sname (lcfg_strs (read_txt lib w buf) ! k) = sname (lcfg_strs w ! k)"
  by (simp_all add: read_txt_int read_txt_dbl read_txt_str)

lemma int_valid_read_txt [simp]: "int_valid (read_txt lib w buf) i = int_valid w i"
  by (simp add: int_valid_alt read_txt_tables read_txt_names cong: conj_cong)

lemma dbl_valid_read_txt [simp]: "dbl_valid (read_txt lib w buf) i = dbl_valid w i"
  by (simp add: dbl_valid_alt read_txt_tables read_txt_names cong: conj_cong)

lemma str_valid_read_txt [simp]: "str_valid (read_txt lib w buf) i = str_valid w i"
  by (simp add: str_valid_alt read_txt_tables read_txt_names cong: conj_cong)

lemma registered_read_txt [simp]: "registered (read_txt lib w buf) f = registered w f"
  by (cases f) simp_all

lemma stored_name_read_txt [simp]:
  "registered w f \<Longrightarrow> stored_name (read_txt lib w buf) f = stored_name w f"
  by (cases f) (simp_all add: int_valid_alt dbl_valid_alt str_valid_alt read_txt_names)

lemma get_int_read_txt_unmatched:
  "int_valid w i \<Longrightarrow> \<not> prefix (the (iname (lcfg_ints w ! nat i))) buf \<Longrightarrow>
     lconfigGetInt (read_txt lib w buf) i = lconfigGetInt w i"
  unfolding lconfigGetInt_def int_valid_read_txt
  by (auto simp: int_valid_alt read_txt_int lcfgIntRead_unmatched)

lemma get_dbl_read_txt_unmatched:
  "dbl_valid w i \<Longrightarrow> \<not> prefix (the (dname (lcfg_dbls w ! nat i))) buf \<Longrightarrow>
     lconfigGetDouble (read_txt lib w buf) i = lconfigGetDouble w i"
  unfolding lconfigGetDouble_def dbl_valid_read_txt
  by (auto simp: dbl_valid_alt read_txt_dbl lcfgDblRead_unmatched)

lemma get_str_read_txt_unmatched:
  "str_valid w i \<Longrightarrow> \<not> prefix (the (sname (lcfg_strs w ! nat i))) buf \<Longrightarrow>
     lconfigGetString (read_txt lib w buf) i = lconfigGetString w i"
  unfolding lconfigGetString_def str_valid_read_txt
  by (auto simp: str_valid_alt read_txt_str lcfgStrRead_unmatched)

lemma current_read_txt_unmatched:
  "registered w f \<Longrightarrow> \<not> prefix (stored_name w f) buf \<Longrightarrow>
     current (read_txt lib w buf) f = current w f"
  by (cases f)
    (simp_all add: get_int_read_txt_unmatched get_dbl_read_txt_unmatched
      get_str_read_txt_unmatched)

lemma in_fields: "f \<in> set (fields w) \<longleftrightarrow> registered w f"
  by (cases f) (auto simp: fields_def slots_def int_valid_def dbl_valid_def str_valid_def)

lemma prefix_freeD:
  "prefix_free w \<Longrightarrow> registered w f \<Longrightarrow> registered w g \<Longrightarrow> f \<noteq> g \<Longrightarrow>
     \<not> prefix (stored_name w f) (stored_name w g)"
  unfolding prefix_free_def by (simp add: in_fields)


lemma fields_read_txt [simp]: "fields (read_txt lib w buf) = fields w"
proof -
  have "registered (read_txt lib w buf) = registered w"
    by (rule ext) simp
  then show ?thesis
    by (simp add: fields_def slots_def read_txt_tables)
qed

lemma prefix_free_read_txt: "prefix_free (read_txt lib w buf) = prefix_free w"
  by (simp add: prefix_free_def in_fields)

text \<open>
  The space behind every declared name keeps apart the names that differ and hold no
  space themselves, \<^verbatim>\<open>vol\<close> and \<^verbatim>\<open>volume\<close> for one.
\<close>

lemma spaced_prefix:
  assumes "prefix (m @ '' '') (n @ '' '')" and "CHR '' '' \<notin> set n"
  shows "m = n"
proof -
  from assms(1) obtain r where r: "n @ '' '' = (m @ '' '') @ r"
    by (auto simp: prefix_def)
  show ?thesis
  proof (cases "length m < length n")
    case True
    from r have "(n @ '' '') ! length m = ((m @ '' '') @ r) ! length m" by simp
    with True have "n ! length m = CHR '' ''"
      by (simp add: nth_append)
    with True assms(2) show ?thesis
      by (metis nth_mem)
  next
    case False
    from r have "length (n @ '' '') = length ((m @ '' '') @ r)" by (rule arg_cong)
    then have "length n = length m + length r" by simp
    with False have "r = []" by simp
    with r show ?thesis by simp
  qed
qed

lemma prefix_free_spaced:
  assumes names: "\<forall>f \<in> set (fields w). \<exists>n. stored_name w f = n @ '' '' \<and> CHR '' '' \<notin> set n"
    and dist: "distinct (map (stored_name w) (fields w))"
  shows "prefix_free w"
  unfolding prefix_free_def
proof (intro ballI impI notI)
  fix f g
  assume f: "f \<in> set (fields w)" and g: "g \<in> set (fields w)" and ne: "f \<noteq> g"
    and pre: "prefix (stored_name w f) (stored_name w g)"
  from names f obtain m where m: "stored_name w f = m @ '' ''" by blast
  from names g obtain n where n: "stored_name w g = n @ '' ''" "CHR '' '' \<notin> set n" by blast
  from pre m n have "m = n" by (simp add: spaced_prefix)
  with m n have "stored_name w f = stored_name w g" by simp
  moreover from dist have "inj_on (stored_name w) (set (fields w))"
    by (simp add: distinct_map)
  ultimately have "f = g" using f g by (auto dest: inj_onD)
  with ne show False by simp
qed

subsection \<open>The loop\<close>

lemma read_loop_Nil [simp]: "read_loop lib w [] = w"
  by (simp add: read_loop.simps)

lemma read_loop_step:
  "cfg \<noteq> [] \<Longrightarrow>
     read_loop lib w cfg =
       read_loop lib (read_txt lib w (fgets LCONFIG_LMAX cfg))
         (drop (length (fgets LCONFIG_LMAX cfg)) cfg)"
  by (subst read_loop.simps) (simp add: Let_def)

lemma fgets_lines_Nil [simp]: "fgets_lines [] = []"
  by (simp add: fgets_lines.simps)

lemma fgets_lines_step:
  "cfg \<noteq> [] \<Longrightarrow>
     fgets_lines cfg =
       fgets LCONFIG_LMAX cfg # fgets_lines (drop (length (fgets LCONFIG_LMAX cfg)) cfg)"
  by (subst fgets_lines.simps) simp

lemma read_loop_foldl: "read_loop lib w cfg = foldl (read_txt lib) w (fgets_lines cfg)"
proof (induction lib w cfg rule: read_loop.induct)
  case (1 lib w cfg)
  show ?case
  proof (cases "cfg = []")
    case True
    then show ?thesis by simp
  next
    case False
    with 1 show ?thesis
      by (simp add: read_loop_step fgets_lines_step)
  qed
qed

lemma foldl_read_txt_invariant:
  assumes "P w" and "\<And>v buf. P v \<Longrightarrow> buf \<in> set bufs \<Longrightarrow> P (read_txt lib v buf)"
  shows "P (foldl (read_txt lib) w bufs)"
  using assms by (induction bufs arbitrary: w) simp_all

subsection \<open>Running the examples\<close>

text \<open>The definitions that the simplifier unfolds to run the code on an example.\<close>

lemmas run_reader =
  lconfigRead_def fopen_r_def read_loop_step LCONFIG_LMAX_def read_txt_def
  lcfgIntRead_def lcfgDblRead_def lcfgStrRead_def strncmp_eq_def
  lcfgIntSet_def lcfgDblSet_def lcfgStrSet_def strcspn_nl_def Let_def
  atoi_def isspace_def isdigit_def

lemmas run_access =
  int_valid_def dbl_valid_def str_valid_def
  lconfigGetInt_def lconfigGetDouble_def lconfigGetString_def
  lconfigSetInt_def lconfigSetDouble_def lconfigSetString_def

lemma example_fields:
  "fields example_world =
     [IntField 0, IntField 1, DblField 0, DblField 1, DblField 2, StrField 0]"
  by (simp add: fields_def slots_def run_access example_ints example_dbls example_strs
      upt_rec [of 0])

lemma example_prefix_free: "prefix_free example_world"
  by (simp add: prefix_free_def example_fields example_ints example_dbls example_strs)

subsection \<open>What one buffer changes\<close>

text \<open>
  A buffer changes a registered field only if it begins with the stored name of the
  field; where the stored names are apart, it begins with at most one of them.
\<close>

lemma one_field_per_buffer:
  "prefix_free w \<Longrightarrow> registered w f \<Longrightarrow> registered w g \<Longrightarrow> f \<noteq> g \<Longrightarrow>
     (current (read_txt lib w buf) f \<noteq> current w f \<longrightarrow> prefix (stored_name w f) buf) \<and>
     (prefix (stored_name w f) buf \<longrightarrow>
        \<not> prefix (stored_name w g) buf \<and> current (read_txt lib w buf) g = current w g)"
proof -
  assume pf: "prefix_free w" and f: "registered w f" and g: "registered w g" and ne: "f \<noteq> g"
  have matched: "prefix (stored_name w f) buf" if "current (read_txt lib w buf) f \<noteq> current w f"
    using f that current_read_txt_unmatched [of w f _ lib] by blast
  have other: "\<not> prefix (stored_name w g) buf \<and> current (read_txt lib w buf) g = current w g"
    if pre: "prefix (stored_name w f) buf"
  proof -
    have no: "\<not> prefix (stored_name w g) buf"
    proof
      assume "prefix (stored_name w g) buf"
      with pre have "prefix (stored_name w f) (stored_name w g) \<or>
          prefix (stored_name w g) (stored_name w f)"
        by (rule prefix_same_cases)
      moreover from pf f g ne have "\<not> prefix (stored_name w f) (stored_name w g)"
        by (rule prefix_freeD)
      moreover from pf g f ne [symmetric] have "\<not> prefix (stored_name w g) (stored_name w f)"
        by (rule prefix_freeD)
      ultimately show False by blast
    qed
    with g have "current (read_txt lib w buf) g = current w g"
      by (rule current_read_txt_unmatched)
    with no show ?thesis ..
  qed
  from matched other show ?thesis by blast
qed



subsection \<open>Lines and buffers\<close>

lemma text_lines_nonempty: "cs \<noteq> [] \<Longrightarrow> text_lines cs \<noteq> []"
  by (cases cs) (simp_all split: list.splits)

lemma fgets_prefix_first_line:
  "cs \<noteq> [] \<Longrightarrow> prefix (fgets n cs) (hd (text_lines cs))"
proof (induction cs arbitrary: n)
  case Nil
  then show ?case by simp
next
  case (Cons c cs)
  show ?case
  proof (cases "cs = []")
    case True
    then show ?thesis by simp
  next
    case False
    with Cons.IH [of "n - 1"] text_lines_nonempty [of cs] show ?thesis
      by (auto split: list.splits)
  qed
qed


lemma fgets_full:
  "newline \<notin> set l \<Longrightarrow> Suc (length l) = n \<Longrightarrow> fgets n (l @ c # r) = l"
proof (induction l arbitrary: n)
  case Nil
  then show ?case by simp
next
  case (Cons a l)
  then show ?case by auto
qed

lemma text_lines_tail:
  "l \<in> set (text_lines cs) \<Longrightarrow> \<exists>l' \<in> set (text_lines (c # cs)). suffix l l'"
  by (auto split: list.splits simp: suffix_Cons)

lemma text_lines_drop:
  "l \<in> set (text_lines (drop k cs)) \<Longrightarrow> \<exists>l' \<in> set (text_lines cs). suffix l l'"
proof (induction cs arbitrary: k l)
  case Nil
  then show ?case by simp
next
  case (Cons c cs)
  show ?case
  proof (cases k)
    case 0
    with Cons.prems show ?thesis by auto
  next
    case (Suc j)
    with Cons.prems have "l \<in> set (text_lines (drop j cs))" by simp
    then obtain l1 where l1: "l1 \<in> set (text_lines cs)" "suffix l l1"
      using Cons.IH by blast
    from text_lines_tail [OF l1(1), of c] obtain l2
      where "l2 \<in> set (text_lines (c # cs))" "suffix l1 l2" by blast
    with l1(2) show ?thesis
      by (meson suffix_order.trans)
  qed
qed

lemma fgets_lines_in_text_lines:
  "buf \<in> set (fgets_lines cfg) \<Longrightarrow> \<exists>l \<in> set (text_lines cfg). sublist buf l"
proof (induction cfg arbitrary: buf rule: fgets_lines.induct)
  case (1 cfg)
  show ?case
  proof (cases "cfg = []")
    case True
    with "1.prems" show ?thesis by simp
  next
    case False
    from "1.prems" False consider
      "buf = fgets LCONFIG_LMAX cfg"
      | "buf \<in> set (fgets_lines (drop (length (fgets LCONFIG_LMAX cfg)) cfg))"
      by (auto simp: fgets_lines_step)
    then show ?thesis
    proof cases
      case 1
      with False fgets_prefix_first_line [of cfg LCONFIG_LMAX] text_lines_nonempty [of cfg]
      show ?thesis
        by (metis hd_in_set prefix_imp_sublist)
    next
      case 2
      with "1.IH" False obtain l
        where l: "l \<in> set (text_lines (drop (length (fgets LCONFIG_LMAX cfg)) cfg))"
          "sublist buf l"
        by blast
      from text_lines_drop [OF l(1)] obtain l' where "l' \<in> set (text_lines cfg)" "suffix l l'"
        by blast
      with l(2) show ?thesis
        by (meson sublist_order.order.trans suffix_imp_sublist)
    qed
  qed
qed

subsection \<open>Fields no line names\<close>

text \<open>
  C9. When the file opens and the stored name of a registered field occurs on none of
  its lines (nowhere on the line, which covers a line so long that the reader gets it in
  several buffers), \<^verbatim>\<open>lconfigRead\<close> leaves the value of that field as it was. Read
  contrapositively: a field that the read changes has its name on some line of the input.
\<close>

theorem read_keeps_absent:
  "fopen_r w = Some cfg \<Longrightarrow> registered w f \<Longrightarrow>
   \<forall>l \<in> set (text_lines cfg). \<not> sublist (stored_name w f) l \<Longrightarrow>
     current (snd (lconfigRead lib w)) f = current w f"
proof -
  assume op: "fopen_r w = Some cfg" and f: "registered w f"
    and absent: "\<forall>l \<in> set (text_lines cfg). \<not> sublist (stored_name w f) l"
  have unmatched: "\<not> prefix (stored_name w f) buf" if "buf \<in> set (fgets_lines cfg)" for buf
  proof
    assume "prefix (stored_name w f) buf"
    then have "sublist (stored_name w f) buf" by (rule prefix_imp_sublist)
    moreover from that obtain l where "l \<in> set (text_lines cfg)" "sublist buf l"
      using fgets_lines_in_text_lines by blast
    ultimately show False
      using absent by (meson sublist_order.order.trans)
  qed
  let ?P = "\<lambda>v::world. registered v f \<and> stored_name v f = stored_name w f \<and> current v f = current w f"
  have "?P (foldl (read_txt lib) w (fgets_lines cfg))"
  proof (rule foldl_read_txt_invariant)
    show "?P w" using f by simp
  next
    fix v buf
    assume "?P v" and "buf \<in> set (fgets_lines cfg)"
    with unmatched [of buf] show "?P (read_txt lib v buf)"
      by (simp add: current_read_txt_unmatched)
  qed
  with op show ?thesis
    by (simp add: lconfigRead_def read_loop_foldl)
qed

text \<open>
  A file that holds the one line \<^verbatim>\<open>number_b 12\<close>: \<^verbatim>\<open>number_a\<close> keeps its 0 while
  \<^verbatim>\<open>number_b\<close> becomes 12.
\<close>

theorem read_keeps_absent_witness:
  "fopen_r (example_world\<lparr>disk := Some (''number_b 12'' @ [newline])\<rparr>) =
     Some (''number_b 12'' @ [newline]) \<and>
   text_lines (''number_b 12'' @ [newline]) = [''number_b 12'' @ [newline]] \<and>
   \<not> sublist ''number_a '' (''number_b 12'' @ [newline]) \<and>
   current (snd (lconfigRead example_libc
      (example_world\<lparr>disk := Some (''number_b 12'' @ [newline])\<rparr>))) (IntField 0) = IntVal 0 \<and>
   current (snd (lconfigRead example_libc
      (example_world\<lparr>disk := Some (''number_b 12'' @ [newline])\<rparr>))) (IntField 1) = IntVal 12"
  using read_keeps_absent [of "example_world\<lparr>disk := Some (''number_b 12'' @ [newline])\<rparr>"
       "''number_b 12'' @ [newline]" "IntField 0" example_libc]
  by (simp add: run_reader run_access example_ints example_dbls example_strs example_file
      sublist_Cons_right)

text \<open>
  When every line of the file, with its newline, is shorter than \<^verbatim>\<open>LCONFIG_LMAX\<close>,
  the buffers of the reader are the lines, and it is enough that no line begins with the
  stored name.
\<close>

lemma fgets_first_line:
  "cs \<noteq> [] \<Longrightarrow> length (hd (text_lines cs)) < n \<Longrightarrow> fgets n cs = hd (text_lines cs)"
proof (induction cs arbitrary: n)
  case Nil
  then show ?case by simp
next
  case (Cons c cs)
  show ?case
  proof (cases "cs = []")
    case True
    with Cons.prems show ?thesis by (auto split: if_splits)
  next
    case False
    with Cons.prems Cons.IH [of "n - 1"] text_lines_nonempty [of cs] show ?thesis
      by (auto split: list.splits if_splits)
  qed
qed

lemma text_lines_rest:
  "cs \<noteq> [] \<Longrightarrow> text_lines (drop (length (hd (text_lines cs))) cs) = tl (text_lines cs)"
proof (induction cs)
  case Nil
  then show ?case by simp
next
  case (Cons c cs)
  show ?case
  proof (cases "cs = []")
    case True
    then show ?thesis by simp
  next
    case False
    with Cons.IH text_lines_nonempty [of cs] show ?thesis
      by (auto split: list.splits)
  qed
qed

lemma fgets_lines_short:
  "\<forall>l \<in> set (text_lines cfg). length l < LCONFIG_LMAX \<Longrightarrow> fgets_lines cfg = text_lines cfg"
proof (induction cfg rule: fgets_lines.induct)
  case (1 cfg)
  show ?case
  proof (cases "cfg = []")
    case True
    then show ?thesis by simp
  next
    case False
    then have ne: "text_lines cfg \<noteq> []" by (rule text_lines_nonempty)
    with "1.prems" have "length (hd (text_lines cfg)) < LCONFIG_LMAX" by simp
    with False have b: "fgets LCONFIG_LMAX cfg = hd (text_lines cfg)"
      by (rule fgets_first_line)
    from False have rest: "text_lines (drop (length (fgets LCONFIG_LMAX cfg)) cfg) = tl (text_lines cfg)"
      unfolding b by (rule text_lines_rest)
    with "1.prems" have "\<forall>l \<in> set (text_lines (drop (length (fgets LCONFIG_LMAX cfg)) cfg)).
        length l < LCONFIG_LMAX"
      by (auto dest: list.set_sel(2) [OF ne])
    with False have "fgets_lines (drop (length (fgets LCONFIG_LMAX cfg)) cfg) = tl (text_lines cfg)"
      unfolding rest [symmetric] by (rule "1.IH")
    with False b ne show ?thesis
      by (simp add: fgets_lines_step [of cfg])
  qed
qed

lemma read_keeps_unstarted:
  assumes "fopen_r w = Some cfg" and "registered w f"
    and "\<forall>l \<in> set (text_lines cfg). length l < LCONFIG_LMAX \<and> \<not> prefix (stored_name w f) l"
  shows "current (snd (lconfigRead lib w)) f = current w f"
proof -
  from assms(3) have lines: "fgets_lines cfg = text_lines cfg"
    by (simp add: fgets_lines_short)
  let ?P = "\<lambda>v::world. registered v f \<and> stored_name v f = stored_name w f \<and> current v f = current w f"
  have "?P (foldl (read_txt lib) w (fgets_lines cfg))"
  proof (rule foldl_read_txt_invariant)
    show "?P w" using assms(2) by simp
  next
    fix v buf
    assume "?P v" and "buf \<in> set (fgets_lines cfg)"
    with assms(3) show "?P (read_txt lib v buf)"
      by (simp add: lines current_read_txt_unmatched)
  qed
  with assms(1) show ?thesis
    by (simp add: lconfigRead_def read_loop_foldl)
qed

subsection \<open>How many fields one line changes\<close>

text \<open>
  The loop of \<^const>\<open>lconfigRead\<close>, seen after each buffer of the file: the state after
  \<open>k\<close> buffers is \<^const>\<open>read_upto\<close> \<open>k\<close>, the buffers are \<^const>\<open>fgets_lines\<close>, and the
  loop ends in the state after the last of them.
\<close>

lemma read_upto_foldl:
  "read_upto k lib w cfg = foldl (read_txt lib) w (take k (fgets_lines cfg))"
proof (induction k arbitrary: w cfg)
  case 0
  show ?case by (simp add: read_upto.simps)
next
  case (Suc k)
  show ?case
  proof (cases "cfg = []")
    case True
    then show ?thesis by (simp add: read_upto.simps)
  next
    case False
    with Suc show ?thesis
      by (simp add: read_upto.simps Let_def fgets_lines_step [of cfg])
  qed
qed

lemma read_loop_upto: "read_loop lib w cfg = read_upto (length (fgets_lines cfg)) lib w cfg"
  by (simp add: read_loop_foldl read_upto_foldl)

lemma read_upto_Suc:
  "k < length (fgets_lines cfg) \<Longrightarrow>
     read_upto (Suc k) lib w cfg = read_txt lib (read_upto k lib w cfg) (fgets_lines cfg ! k)"
  by (simp add: read_upto_foldl take_Suc_conv_app_nth)

lemma registered_read_upto [simp]: "registered (read_upto k lib w cfg) f = registered w f"
proof -
  have "registered (foldl (read_txt lib) w bufs) f = registered w f" for bufs
    by (induction bufs arbitrary: w) simp_all
  then show ?thesis by (simp add: read_upto_foldl)
qed

lemma stored_name_read_upto [simp]:
  "registered w f \<Longrightarrow> stored_name (read_upto k lib w cfg) f = stored_name w f"
proof -
  have "registered w f \<Longrightarrow> stored_name (foldl (read_txt lib) w bufs) f = stored_name w f" for bufs
    by (induction bufs arbitrary: w) simp_all
  then show "registered w f \<Longrightarrow> stored_name (read_upto k lib w cfg) f = stored_name w f"
    by (simp add: read_upto_foldl)
qed

lemma prefix_free_read_upto [simp]: "prefix_free (read_upto k lib w cfg) = prefix_free w"
proof -
  have "prefix_free (foldl (read_txt lib) w bufs) = prefix_free w" for bufs
    by (induction bufs arbitrary: w) (simp_all add: prefix_free_read_txt)
  then show ?thesis by (simp add: read_upto_foldl)
qed

lemma disk_update_fields [simp]:
  "registered (w\<lparr>disk := d\<rparr>) f = registered w f"
  "stored_name (w\<lparr>disk := d\<rparr>) f = stored_name w f"
  by (cases f; simp add: int_valid_def dbl_valid_def str_valid_def)+

lemma disk_update_prefix_free [simp]: "prefix_free (w\<lparr>disk := d\<rparr>) = prefix_free w"
  by (simp add: prefix_free_def fields_def slots_def)

lemma two_lines_buffers:
  "fgets_lines two_lines = [''number_a 3'' @ [newline], ''number_b 12'' @ [newline]]"
  "text_lines two_lines = [''number_a 3'' @ [newline], ''number_b 12'' @ [newline]]"
  by (simp_all add: two_lines_def fgets_lines_step LCONFIG_LMAX_def)

text \<open>
  C3, as amended. A successful \<^const>\<open>lconfigRead\<close> hands the file to the fields one
  \<^verbatim>\<open>fgets\<close> buffer after the other, and its result is the state after the last one.
  When every line of the file, its newline counted, has fewer than \<^const>\<open>LCONFIG_LMAX\<close>
  characters, the buffers are the lines; a longer line is cut into several buffers.
  The \<open>k\<close>-th buffer changes the value of a registered field only if the field's stored
  name (the declared name and one space) is a prefix of that buffer. When no stored name
  of a registered field is a prefix of the stored name of another one, a buffer that begins
  with the stored name of one registered field begins with the stored name of no other,
  and leaves every other registered field as it was: at most one field is updated for
  each buffer, so for each line of a file whose lines fit the buffer.
\<close>

theorem one_field_per_line:
  "fopen_r w = Some cfg \<Longrightarrow> k < length (fgets_lines cfg) \<Longrightarrow> registered w f \<Longrightarrow>
     snd (lconfigRead lib w) = read_upto (length (fgets_lines cfg)) lib w cfg \<and>
     ((\<forall>l \<in> set (text_lines cfg). length l < LCONFIG_LMAX) \<longrightarrow>
        fgets_lines cfg = text_lines cfg) \<and>
     (current (read_upto (Suc k) lib w cfg) f \<noteq> current (read_upto k lib w cfg) f \<longrightarrow>
        prefix (stored_name w f) (fgets_lines cfg ! k)) \<and>
     (prefix_free w \<and> registered w g \<and> f \<noteq> g \<and>
      prefix (stored_name w f) (fgets_lines cfg ! k) \<longrightarrow>
        \<not> prefix (stored_name w g) (fgets_lines cfg ! k) \<and>
        current (read_upto (Suc k) lib w cfg) g = current (read_upto k lib w cfg) g)"
proof (intro conjI impI)
  assume op: "fopen_r w = Some cfg" and k: "k < length (fgets_lines cfg)"
    and f: "registered w f"
  let ?v = "read_upto k lib w cfg"
  let ?b = "fgets_lines cfg ! k"
  have step: "read_upto (Suc k) lib w cfg = read_txt lib ?v ?b"
    using k by (rule read_upto_Suc)
  from op show "snd (lconfigRead lib w) = read_upto (length (fgets_lines cfg)) lib w cfg"
    by (simp add: lconfigRead_def read_loop_upto)
  show "fgets_lines cfg = text_lines cfg"
    if "\<forall>l \<in> set (text_lines cfg). length l < LCONFIG_LMAX"
    using that by (rule fgets_lines_short)
  show "prefix (stored_name w f) ?b"
    if "current (read_upto (Suc k) lib w cfg) f \<noteq> current ?v f"
  proof (rule ccontr)
    assume "\<not> prefix (stored_name w f) ?b"
    with f have "current (read_txt lib ?v ?b) f = current ?v f"
      by (simp add: current_read_txt_unmatched)
    with that show False by (simp add: step)
  qed
  assume h: "prefix_free w \<and> registered w g \<and> f \<noteq> g \<and> prefix (stored_name w f) ?b"
  with f have "\<not> prefix (stored_name ?v g) ?b \<and> current (read_txt lib ?v ?b) g = current ?v g"
    using one_field_per_buffer [of ?v f g lib ?b] by simp
  with h show "\<not> prefix (stored_name w g) ?b"
    and "current (read_upto (Suc k) lib w cfg) g = current ?v g"
    by (simp_all add: step)
qed

theorem one_field_per_line_witness:
  "fopen_r (example_world\<lparr>disk := Some two_lines\<rparr>) = Some two_lines \<and>
   fgets_lines two_lines = text_lines two_lines \<and>
   fgets_lines two_lines ! 1 = ''number_b 12'' @ [newline] \<and>
   prefix_free (example_world\<lparr>disk := Some two_lines\<rparr>) \<and>
   registered (example_world\<lparr>disk := Some two_lines\<rparr>) (IntField 1) \<and>
   registered (example_world\<lparr>disk := Some two_lines\<rparr>) (IntField 0) \<and>
   snd (lconfigRead example_libc (example_world\<lparr>disk := Some two_lines\<rparr>)) =
     read_upto 2 example_libc (example_world\<lparr>disk := Some two_lines\<rparr>) two_lines \<and>
   current (read_upto 1 example_libc (example_world\<lparr>disk := Some two_lines\<rparr>) two_lines)
     (IntField 1) = IntVal 15 \<and>
   current (read_upto 2 example_libc (example_world\<lparr>disk := Some two_lines\<rparr>) two_lines)
     (IntField 1) = IntVal 12 \<and>
   prefix (stored_name (example_world\<lparr>disk := Some two_lines\<rparr>) (IntField 1))
     (fgets_lines two_lines ! 1) \<and>
   \<not> prefix (stored_name (example_world\<lparr>disk := Some two_lines\<rparr>) (IntField 0))
     (fgets_lines two_lines ! 1) \<and>
   current (read_upto 1 example_libc (example_world\<lparr>disk := Some two_lines\<rparr>) two_lines)
     (IntField 0) = IntVal 3 \<and>
   current (read_upto 2 example_libc (example_world\<lparr>disk := Some two_lines\<rparr>) two_lines)
     (IntField 0) = IntVal 3"
proof -
  let ?w = "example_world\<lparr>disk := Some two_lines\<rparr>"
  have s1: "current (read_upto 1 example_libc ?w two_lines) (IntField 1) = IntVal 15"
    by (simp add: read_upto_foldl two_lines_buffers run_reader run_access
        example_ints example_dbls example_strs)
  have s2: "current (read_upto 1 example_libc ?w two_lines) (IntField 0) = IntVal 3"
    by (simp add: read_upto_foldl two_lines_buffers run_reader run_access
        example_ints example_dbls example_strs)
  have s3: "current (read_upto (Suc 1) example_libc ?w two_lines) (IntField 1) = IntVal 12"
    by (simp add: read_upto_foldl two_lines_buffers run_reader run_access
        example_ints example_dbls example_strs)
  have reg: "registered ?w (IntField 1)" "registered ?w (IntField 0)"
    by (simp_all add: run_access example_ints)
  have two: "Suc 1 = 2" "Suc (Suc 0) = 2" by simp_all
  from s1 s2 s3 reg example_prefix_free
    one_field_per_line [of ?w two_lines 1 "IntField 1" example_libc "IntField 0"]
  show ?thesis
    by (simp add: fopen_r_def example_file two_lines_buffers example_ints two)
qed

text \<open>
  C3 as stated fails: nothing keeps a line from matching two fields. The fields declared
  as \<^verbatim>\<open>vol\<close> and \<^verbatim>\<open>vol max\<close> have the stored names \<^verbatim>\<open>"vol "\<close> and
  \<^verbatim>\<open>"vol max "\<close>; the single line \<^verbatim>\<open>vol max 3\<close> begins with both, and reading it
  changes \<^verbatim>\<open>vol\<close> from 5 to 0 (what \<^verbatim>\<open>atoi\<close> makes of \<^verbatim>\<open>max 3\<close>) and
  \<^verbatim>\<open>vol max\<close> from 7 to 3.
\<close>

theorem one_field_per_line_counterexample:
  "fgets_lines (''vol max 3'' @ [newline]) = [''vol max 3'' @ [newline]] \<and>
   lconfigGetInt vol_world 0 = 5 \<and>
   lconfigGetInt vol_world 1 = 7 \<and>
   lconfigGetInt (snd (lconfigRead example_libc vol_world)) 0 = 0 \<and>
   lconfigGetInt (snd (lconfigRead example_libc vol_world)) 1 = 3"
  by (simp add: fgets_lines_step run_reader run_access vol_ints vol_file)

text \<open>
  A line that does not fit the buffer is cut, and every piece is matched on its own. In
  the example, whose stored names are apart, the one line of 523 characters that begins
  with \<^verbatim>\<open>number_a 5\<close> and ends with \<^verbatim>\<open>number_b 12\<close> arrives in two buffers and sets
  both fields.
\<close>

lemma text_lines_line:
  "newline \<notin> set l \<Longrightarrow> text_lines (l @ [newline]) = [l @ [newline]]"
  by (induction l) auto

lemma long_line_example:
  "prefix_free (example_world\<lparr>disk := Some long_line\<rparr>) \<and>
   text_lines long_line = [long_line] \<and>
   length long_line = 523 \<and>
   fgets_lines long_line =
     [''number_a 5'' @ replicate 501 CHR ''x'', ''number_b 12'' @ [newline]] \<and>
   lconfigGetInt (example_world\<lparr>disk := Some long_line\<rparr>) 0 = 0 \<and>
   lconfigGetInt (example_world\<lparr>disk := Some long_line\<rparr>) 1 = 15 \<and>
   lconfigGetInt (snd (lconfigRead example_libc (example_world\<lparr>disk := Some long_line\<rparr>))) 0 = 5 \<and>
   lconfigGetInt (snd (lconfigRead example_libc (example_world\<lparr>disk := Some long_line\<rparr>))) 1 = 12"
proof -
  let ?x = "CHR ''x''"
  let ?w = "example_world\<lparr>disk := Some long_line\<rparr>"
  let ?b1 = "''number_a 5'' @ replicate 501 ?x"
  let ?b2 = "''number_b 12'' @ [newline]"
  have r501: "replicate 501 ?x = ?x # replicate 500 ?x"
  proof -
    have "replicate (Suc 500) ?x = ?x # replicate 500 ?x" by (rule replicate_Suc)
    moreover have "Suc 500 = (501::nat)" by simp
    ultimately show ?thesis by (simp only:)
  qed
  have whole: "long_line = ?b1 @ CHR ''n'' # (''umber_b 12'' @ [newline])"
    by (simp add: long_line_def)
  have one: "text_lines long_line = [long_line]"
  proof -
    have "long_line = (''number_a 5'' @ replicate 501 ?x @ ''number_b 12'') @ [newline]"
      by (simp add: long_line_def)
    moreover have "text_lines ((''number_a 5'' @ replicate 501 ?x @ ''number_b 12'') @ [newline])
        = [(''number_a 5'' @ replicate 501 ?x @ ''number_b 12'') @ [newline]]"
      by (rule text_lines_line) simp
    ultimately show ?thesis by (simp only:)
  qed
  have len: "length long_line = 523"
    by (simp add: long_line_def)
  have b1: "fgets LCONFIG_LMAX long_line = ?b1"
    unfolding whole by (rule fgets_full) (simp_all add: LCONFIG_LMAX_def)
  have rest: "drop (length ?b1) long_line = ?b2"
    unfolding whole by simp
  have b2: "fgets LCONFIG_LMAX ?b2 = ?b2"
    by (simp add: LCONFIG_LMAX_def)
  have ne: "long_line \<noteq> []" by (simp add: long_line_def)
  have len1: "length ?b1 = 511" by simp
  have tl: "fgets_lines ?b2 = [?b2]"
    by (simp add: fgets_lines_step LCONFIG_LMAX_def)
  have "fgets_lines long_line = ?b1 # fgets_lines (drop (length ?b1) long_line)"
    using fgets_lines_step [OF ne] unfolding b1 .
  hence bufs: "fgets_lines long_line = [?b1, ?b2]"
    by (simp only: rest tl)
  have rd: "snd (lconfigRead example_libc ?w) = foldl (read_txt example_libc) ?w [?b1, ?b2]"
    by (simp add: lconfigRead_def fopen_r_def example_file read_loop_foldl bufs)
  have ints: "lcfg_ints (foldl (read_txt example_libc) ?w [?b1, ?b2]) =
     [\<lparr>iname = Some ''number_a '', imin = - 10, imax = 10, idef = 0, icur = 5\<rparr>,
      \<lparr>iname = Some ''number_b '', imin = 10, imax = 20, idef = 15, icur = 12\<rparr>]"
    by (simp add: r501 read_txt_def example_ints example_dbls example_strs
        lcfgIntRead_def lcfgDblRead_def lcfgStrRead_def strncmp_eq_def
        lcfgIntSet_def Let_def atoi_def isspace_def isdigit_def)
  have after: "lconfigGetInt (foldl (read_txt example_libc) ?w [?b1, ?b2]) 0 = 5"
    "lconfigGetInt (foldl (read_txt example_libc) ?w [?b1, ?b2]) 1 = 12"
    using ints by (simp_all add: run_access)
  have before: "lconfigGetInt ?w 0 = 0" "lconfigGetInt ?w 1 = 15"
    by (simp_all add: run_access example_ints)
  have pf: "prefix_free ?w"
    using example_prefix_free by simp
  from pf one len bufs before after show ?thesis
    unfolding rd by blast
qed

subsection \<open>String values\<close>

lemma lcfgStrRead_cases: "lcfgStrRead c buf = c \<or> (\<exists>v. lcfgStrRead c buf = lcfgStrSet c v)"
  by (auto simp: lcfgStrRead_def split: option.splits)

lemma read_txt_str_slot:
  assumes "k < length (lcfg_strs v)"
  shows "lcfg_strs (read_txt lib v buf) ! k = lcfg_strs v ! k \<or>
         str_ok (lcfg_strs (read_txt lib v buf) ! k)"
  using assms lcfgStrRead_cases [of "lcfg_strs v ! k" buf]
  by (auto simp: read_txt_str lcfgStrSet_ok)

lemma read_loop_str_slot:
  assumes "k < length (lcfg_strs w)"
  shows "lcfg_strs (read_loop lib w cfg) ! k = lcfg_strs w ! k \<or>
         str_ok (lcfg_strs (read_loop lib w cfg) ! k)"
proof -
  let ?P = "\<lambda>v::world. length (lcfg_strs v) = length (lcfg_strs w) \<and>
    (lcfg_strs v ! k = lcfg_strs w ! k \<or> str_ok (lcfg_strs v ! k))"
  have "?P (foldl (read_txt lib) w (fgets_lines cfg))"
  proof (rule foldl_read_txt_invariant)
    show "?P w" by simp
  next
    fix v buf
    assume "?P v"
    with assms read_txt_str_slot [of k v lib buf] show "?P (read_txt lib v buf)"
      by (auto simp: read_txt_tables)
  qed
  then show ?thesis
    by (simp add: read_loop_foldl)
qed

lemma strs_ok_nth:
  "strs_ok w = (\<forall>k < length (lcfg_strs w). sname (lcfg_strs w ! k) \<noteq> None \<longrightarrow> str_ok (lcfg_strs w ! k))"
  unfolding strs_ok_def by (metis in_set_conv_nth)

lemma strs_ok_read_txt: "strs_ok v \<Longrightarrow> strs_ok (read_txt lib v buf)"
  unfolding strs_ok_nth read_txt_tables
  using read_txt_str_slot [of _ v lib buf]
  by (metis read_txt_names(3))

lemma strs_ok_read_loop: "strs_ok w \<Longrightarrow> strs_ok (read_loop lib w cfg)"
  unfolding read_loop_foldl
  by (rule foldl_read_txt_invariant) (simp_all add: strs_ok_read_txt)

lemma strs_ok_set: "strs_ok w \<Longrightarrow> strs_ok (lconfigSetString w i s)"
  unfolding strs_ok_def lconfigSetString_def
  by (auto simp: lcfgStrSet_ok dest!: set_update_subset_insert [THEN subsetD])

lemma strs_ok_default: "strs_ok (lconfigDefault w)"
  unfolding strs_ok_def lconfigDefault_def
  by (auto simp: lcfgStrSet_ok)

text \<open>
  C10, as amended. Every store of an operation goes through \<^verbatim>\<open>lcfgStrSet\<close>, which
  leaves the field without a newline and no longer than its maximum length. So after
  \<^verbatim>\<open>lconfigSetString\<close> and after \<^verbatim>\<open>lconfigRead\<close> every registered string field
  either is in that state or holds what it held before the call (the field that was set
  is in that state), and after \<^verbatim>\<open>lconfigDefault\<close> every registered string field is.
  Hence a store in which every registered string field is in order stays so under the
  three operations.
\<close>

theorem string_stores_in_order:
  "(str_valid w k \<longrightarrow>
      (str_ok (lcfg_strs (lconfigSetString w i s) ! nat k) \<or>
       lcfg_strs (lconfigSetString w i s) ! nat k = lcfg_strs w ! nat k) \<and>
      (str_ok (lcfg_strs (snd (lconfigRead lib w)) ! nat k) \<or>
       lcfg_strs (snd (lconfigRead lib w)) ! nat k = lcfg_strs w ! nat k) \<and>
      str_ok (lcfg_strs (lconfigDefault w) ! nat k)) \<and>
   (str_valid w i \<longrightarrow> str_ok (lcfg_strs (lconfigSetString w i s) ! nat i)) \<and>
   (strs_ok w \<longrightarrow> strs_ok (lconfigSetString w i s) \<and> strs_ok (snd (lconfigRead lib w))) \<and>
   strs_ok (lconfigDefault w)"
proof (intro conjI impI)
  assume k: "str_valid w k"
  then have len: "nat k < length (lcfg_strs w)" by (rule str_valid_nth)
  show "str_ok (lcfg_strs (lconfigSetString w i s) ! nat k) \<or>
       lcfg_strs (lconfigSetString w i s) ! nat k = lcfg_strs w ! nat k"
    using len by (cases "nat i = nat k") (auto simp: lconfigSetString_def lcfgStrSet_ok)
  show "str_ok (lcfg_strs (snd (lconfigRead lib w)) ! nat k) \<or>
       lcfg_strs (snd (lconfigRead lib w)) ! nat k = lcfg_strs w ! nat k"
    using read_loop_str_slot [OF len, of lib]
    by (auto simp: lconfigRead_def split: option.splits)
  from k len show "str_ok (lcfg_strs (lconfigDefault w) ! nat k)"
    by (simp add: lconfigDefault_def str_valid_def lcfgStrSet_ok)
next
  assume "str_valid w i"
  then show "str_ok (lcfg_strs (lconfigSetString w i s) ! nat i)"
    using str_valid_nth [of w i] by (simp add: lconfigSetString_def lcfgStrSet_ok)
next
  assume "strs_ok w"
  then show "strs_ok (lconfigSetString w i s)" by (rule strs_ok_set)
  from \<open>strs_ok w\<close> show "strs_ok (snd (lconfigRead lib w))"
    by (simp add: lconfigRead_def strs_ok_read_loop split: option.splits)
next
  show "strs_ok (lconfigDefault w)" by (rule strs_ok_default)
qed

text \<open>
  In the example the store is in order at start and stays so when \<^verbatim>\<open>string_a\<close> is set
  to a text of two lines, when a file is read that gives it another value, and after a
  reset.
\<close>

theorem string_stores_in_order_witness:
  "str_valid example_world 0 \<and> strs_ok example_world \<and>
   str_ok (lcfg_strs (lconfigSetString example_world 0 (''one'' @ [newline] @ ''two'')) ! 0) \<and>
   strs_ok (lconfigSetString example_world 0 (''one'' @ [newline] @ ''two'')) \<and>
   strs_ok (snd (lconfigRead example_libc example_world)) \<and>
   str_ok (lcfg_strs (snd (lconfigRead example_libc
     (example_world\<lparr>disk := Some (''string_a hello'' @ [newline])\<rparr>))) ! 0) \<and>
   strs_ok (lconfigDefault example_world)"
proof -
  have ok: "strs_ok example_world"
    by (simp add: strs_ok_def str_ok_def example_strs)
  have valid: "str_valid example_world 0"
    by (simp add: str_valid_def example_strs)
  have changed: "lcfg_strs (snd (lconfigRead example_libc
     (example_world\<lparr>disk := Some (''string_a hello'' @ [newline])\<rparr>))) ! 0
     \<noteq> lcfg_strs example_world ! 0"
    by (simp add: run_reader example_ints example_dbls example_strs example_file)
  from ok valid changed
    string_stores_in_order [of example_world 0 0 "''one'' @ [newline] @ ''two''" example_libc]
    string_stores_in_order [of
      "example_world\<lparr>disk := Some (''string_a hello'' @ [newline])\<rparr>"
      0 0 "[]" example_libc]
  show ?thesis
    by (simp add: str_valid_def)
qed

text \<open>
  C10 as stated fails: the static initialiser copies the declared default into the
  buffer unchecked, and an operation that does not write a field leaves it as it is. With
  a string field whose declared default has two lines, the value of that field still
  holds its newline after \<^verbatim>\<open>lconfigSetString\<close> of another field.
\<close>

theorem string_stores_counterexample:
  "str_valid two_line_world 0 \<and>
   lconfigGetString (lconfigSetString two_line_world 1 ''alice'') 0 =
     Some (''hello'' @ [newline] @ ''world'') \<and>
   \<not> str_ok (lcfg_strs (lconfigSetString two_line_world 1 ''alice'') ! 0) \<and>
   \<not> strs_ok (lconfigSetString two_line_world 1 ''alice'')"
  by (simp add: run_access two_line_strs str_ok_def strs_ok_def lcfgStrSet_def strcspn_nl_def)

subsection \<open>Decimal text of an integer, read back\<close>





lemma not_isdigit_newline [simp]: "\<not> isdigit newline"
  by (simp add: isdigit_def)






subsection \<open>A field reads its own line back\<close>




subsection \<open>Buffers that change nothing\<close>




subsection \<open>The buffers of a text made of whole lines\<close>


lemma fgets_whole_line:
  "newline \<notin> set l \<Longrightarrow> length l + 1 < n \<Longrightarrow> fgets n (l @ [newline]) = l @ [newline]"
  by (induction l arbitrary: n) auto





lemma fprintf0_plain_id: "CHR ''%'' \<notin> set t \<Longrightarrow> fprintf0 t = t"
  by (induction t rule: fprintf0.induct) auto


subsection \<open>The lines of the written file\<close>






subsection \<open>The tables hold what the template declares\<close>











lemma valid_set_other [simp]:
  "dbl_valid (lconfigSetInt w i v) k = dbl_valid w k"
  "str_valid (lconfigSetInt w i v) k = str_valid w k"
  "int_valid (lconfigSetDouble w i x) k = int_valid w k"
  "str_valid (lconfigSetDouble w i x) k = str_valid w k"
  "int_valid (lconfigSetString w i s) k = int_valid w k"
  "dbl_valid (lconfigSetString w i s) k = dbl_valid w k"
  by (simp_all add: lconfigSetInt_def lconfigSetDouble_def lconfigSetString_def
      int_valid_def dbl_valid_def str_valid_def)

lemma registered_set_int [simp]: "registered (lconfigSetInt w i v) f = registered w f"
  by (cases f) simp_all

lemma registered_set_dbl [simp]: "registered (lconfigSetDouble w i v) f = registered w f"
  by (cases f) simp_all

lemma registered_set_str [simp]: "registered (lconfigSetString w i v) f = registered w f"
  by (cases f) simp_all

lemma registered_default [simp]: "registered (lconfigDefault w) f = registered w f"
  by (cases f) simp_all

lemma registered_read [simp]: "registered (snd (lconfigRead lib w)) f = registered w f"
proof -
  have "registered (foldl (read_txt lib) w bufs) f = registered w f" for bufs
    by (induction bufs arbitrary: w) simp_all
  then show ?thesis
    by (simp add: lconfigRead_def read_loop_foldl split: option.splits)
qed

lemma registered_write [simp]: "registered (snd (lconfigWrite lib tmpl w)) f = registered w f"
  by (cases f) (simp_all add: lconfigWrite_def int_valid_def dbl_valid_def str_valid_def)



subsection \<open>Write, then read\<close>




subsection \<open>The round trip in the examples\<close>

lemmas run_writer =
  lconfigWrite_def lcfgIntPrint_def lcfgDblPrint_def lcfgStrPrint_def
  printf_s_def printf_d_def digits.simps

lemma example_clamped: "clamped example_world"
  by (simp add: clamped_def strs_ok_def str_ok_def dbl_le_def
      example_ints example_dbls example_strs)

lemma example_g17: "g17_exact example_libc example_world"
  by (simp add: g17_exact_def example_libc_def example_dbls)


lemma example_lines_fit: "lines_fit example_libc example_world"
  by (simp add: lines_fit_def example_fields example_ints example_dbls example_strs
      example_libc_def LCONFIG_LMAX_def run_writer)

lemma example_labels_inert: "labels_inert example_template example_world"
  by (simp add: labels_inert_def example_template_def example_fields
      example_ints example_dbls example_strs fgets_lines_step LCONFIG_LMAX_def)

lemma example_written:
  "disk (snd (lconfigWrite example_libc example_template example_world)) =
     Some (''#example'' @ [newline] @
           ''number_a 0'' @ [newline] @
           ''double_a 4'' @ [newline] @
           [newline] @
           ''#foobar'' @ [newline] @
           ''double_b -4'' @ [newline] @
           ''string_a ABCD'' @ [newline] @
           ''number_b 15'' @ [newline] @
           ''double_c 0.5'' @ [newline])"
  by (simp add: example_template_def example_file example_ints example_dbls example_strs
      example_libc_def run_writer)

lemma tuned_ints:
  "lcfg_ints tuned_world =
     [\<lparr>iname = Some ''number_a '', imin = - 10, imax = 10, idef = 0, icur = 7\<rparr>,
      \<lparr>iname = Some ''number_b '', imin = 10, imax = 20, idef = 15, icur = 15\<rparr>]"
  by (simp add: tuned_world_def lconfigSetInt_def lconfigSetDouble_def lconfigSetString_def
      int_valid_def dbl_valid_def str_valid_def example_ints example_dbls example_strs
      lcfgIntSet_def Let_def)

lemma tuned_dbls:
  "lcfg_dbls tuned_world =
     [\<lparr>dname = Some ''double_a '', dmin = Fin 0, dmax = Fin 32, ddef = Fin 4, dcur = Fin 4\<rparr>,
      \<lparr>dname = Some ''double_b '', dmin = Fin (- 32), dmax = Fin 0, ddef = Fin (- 4),
         dcur = Fin 0\<rparr>,
      \<lparr>dname = Some ''double_c '', dmin = Fin 0, dmax = Fin 1, ddef = Fin (1 / 2),
         dcur = Fin (1 / 2)\<rparr>]"
  by (simp add: tuned_world_def lconfigSetInt_def lconfigSetDouble_def lconfigSetString_def
      int_valid_def dbl_valid_def str_valid_def example_ints example_dbls example_strs
      lcfgIntSet_def lcfgDblSet_def Let_def)

lemma tuned_strs:
  "lcfg_strs tuned_world =
     [\<lparr>sname = Some ''string_a '', slen = 32, sdef = ''ABCD'', scur = ''hello''\<rparr>]"
  by (simp add: tuned_world_def lconfigSetInt_def lconfigSetDouble_def lconfigSetString_def
      int_valid_def dbl_valid_def str_valid_def example_ints example_dbls example_strs
      lcfgIntSet_def lcfgDblSet_def lcfgStrSet_def strcspn_nl_def Let_def)

lemma tuned_file: "disk tuned_world = None" "r_ok tuned_world" "w_ok tuned_world"
  by (simp_all add: tuned_world_def lconfigSetInt_def lconfigSetDouble_def lconfigSetString_def
      example_file)









lemma tuned_written:
  "disk (snd (lconfigWrite example_libc example_template tuned_world)) =
     Some (''#example'' @ [newline] @
           ''number_a 7'' @ [newline] @
           ''double_a 4'' @ [newline] @
           [newline] @
           ''#foobar'' @ [newline] @
           ''double_b 0'' @ [newline] @
           ''string_a hello'' @ [newline] @
           ''number_b 15'' @ [newline] @
           ''double_c 0.5'' @ [newline])"
  by (simp add: example_template_def tuned_file tuned_ints tuned_dbls tuned_strs
      example_libc_def run_writer)


text \<open>
  The values do come from the file: after \<^verbatim>\<open>lconfigDefault\<close> has put every field of
  the example back to its default, reading the written file sets the three tables to
  what they were at the write.
\<close>

lemma tuned_restored:
  "lcfg_ints (lconfigDefault tuned_world) = lcfg_ints example_world \<and>
   lcfg_dbls (lconfigDefault tuned_world) = lcfg_dbls example_world \<and>
   lcfg_strs (lconfigDefault tuned_world) = lcfg_strs example_world \<and>
   lcfg_ints (snd (lconfigRead example_libc
     (lconfigDefault (snd (lconfigWrite example_libc example_template tuned_world))))) =
     lcfg_ints tuned_world \<and>
   lcfg_dbls (snd (lconfigRead example_libc
     (lconfigDefault (snd (lconfigWrite example_libc example_template tuned_world))))) =
     lcfg_dbls tuned_world \<and>
   lcfg_strs (snd (lconfigRead example_libc
     (lconfigDefault (snd (lconfigWrite example_libc example_template tuned_world))))) =
     lcfg_strs tuned_world"
  by (simp add: example_template_def tuned_file tuned_ints tuned_dbls tuned_strs
      example_ints example_dbls example_strs example_libc_def run_writer run_reader
      lconfigDefault_def fgets_lines_step)


subsection \<open>The other conditions of the round trip\<close>

lemma label_ints:
  "lcfg_ints label_world =
     [\<lparr>iname = Some ''number_a '', imin = - 10, imax = 10, idef = 5, icur = 5\<rparr>]"
  "lcfg_dbls label_world = [zero_dbl]" "lcfg_strs label_world = [zero_str]"
  "disk label_world = None" "r_ok label_world" "w_ok label_world"
  by (simp_all add: label_world_def label_template_def lcfg_start_def designate_def)

text \<open>
  The condition on the labels cannot go: a label that begins like the line of
  \<^verbatim>\<open>number_a\<close> is read as a line of that field, which held 5 before the write and
  holds 0 after the read.
\<close>

lemma label_example:
  "clamped label_world \<and> prefix_free label_world \<and>
   disk (snd (lconfigWrite example_libc label_template label_world)) =
     Some (''number_a 5'' @ [newline] @ ''number_a is the first number'' @ [newline]) \<and>
   lconfigGetInt label_world 0 = 5 \<and>
   lconfigGetInt (snd (lconfigRead example_libc
     (snd (lconfigWrite example_libc label_template label_world)))) 0 = 0"
proof -
  have "fields label_world = [IntField 0]"
    by (simp add: fields_def slots_def run_access label_ints zero_dbl_def zero_str_def)
  then have "prefix_free label_world"
    by (simp add: prefix_free_def)
  moreover have "clamped label_world"
    by (simp add: clamped_def strs_ok_def label_ints zero_dbl_def zero_str_def)
  moreover have "disk (snd (lconfigWrite example_libc label_template label_world)) =
     Some (''number_a 5'' @ [newline] @ ''number_a is the first number'' @ [newline])"
    by (simp add: label_template_def label_ints run_writer)
  moreover have "lconfigGetInt (snd (lconfigRead example_libc
     (snd (lconfigWrite example_libc label_template label_world)))) 0 = 0"
    by (simp add: label_template_def label_ints run_writer run_reader run_access
        zero_dbl_def zero_str_def)
  ultimately show ?thesis
    by (simp add: label_ints run_access)
qed

lemma percent_ints:
  "lcfg_ints percent_world =
     [\<lparr>iname = Some ''%x '', imin = - 10, imax = 10, idef = 5, icur = 5\<rparr>]"
  "lcfg_dbls percent_world = [zero_dbl]" "lcfg_strs percent_world = [zero_str]"
  "disk percent_world = None" "r_ok percent_world" "w_ok percent_world"
  by (simp_all add: percent_world_def percent_template_def lcfg_start_def designate_def)

text \<open>
  The condition is on the line that is printed, not on the format: the format
  \<^verbatim>\<open>%%x 7\<close> does not begin with the stored name \<^verbatim>\<open>"%x "\<close>, the line
  \<^verbatim>\<open>%x 7\<close> printed from it does, and the field that held 5 before the write holds 7
  after the read.
\<close>

lemma percent_example:
  "clamped percent_world \<and> prefix_free percent_world \<and> labels_plain percent_template \<and>
   \<not> labels_inert percent_template percent_world \<and>
   disk (snd (lconfigWrite example_libc percent_template percent_world)) =
     Some (''%x 5'' @ [newline] @ ''%x 7'' @ [newline]) \<and>
   lconfigGetInt percent_world 0 = 5 \<and>
   lconfigGetInt (snd (lconfigRead example_libc
     (snd (lconfigWrite example_libc percent_template percent_world)))) 0 = 7"
proof -
  have fs: "fields percent_world = [IntField 0]"
    by (simp add: fields_def slots_def run_access percent_ints zero_dbl_def zero_str_def)
  then have "prefix_free percent_world"
    by (simp add: prefix_free_def)
  moreover have "clamped percent_world"
    by (simp add: clamped_def strs_ok_def percent_ints zero_dbl_def zero_str_def)
  moreover have "labels_plain percent_template"
    by (simp add: labels_plain_def percent_template_def)
  moreover have "\<not> labels_inert percent_template percent_world"
    by (simp add: labels_inert_def percent_template_def fs percent_ints fgets_lines_step
        LCONFIG_LMAX_def)
  moreover have "disk (snd (lconfigWrite example_libc percent_template percent_world)) =
     Some (''%x 5'' @ [newline] @ ''%x 7'' @ [newline])"
    by (simp add: percent_template_def percent_ints run_writer)
  moreover have "lconfigGetInt (snd (lconfigRead example_libc
     (snd (lconfigWrite example_libc percent_template percent_world)))) 0 = 7"
    by (simp add: percent_template_def percent_ints run_writer run_reader run_access
        zero_dbl_def zero_str_def)
  ultimately show ?thesis
    by (simp add: percent_ints run_access)
qed

text \<open>
  Nor can the condition on the length of the lines: of a line longer than the buffer
  the reader takes the first 511 characters for the whole line, and the string of 600
  characters comes back with 509.
\<close>

lemma long_strs:
  "lcfg_strs long_world =
     [\<lparr>sname = Some ''s '', slen = 600, sdef = [], scur = replicate 600 CHR ''x''\<rparr>]"
  "lcfg_ints long_world = [zero_int]" "lcfg_dbls long_world = [zero_dbl]"
  "disk long_world = None" "r_ok long_world" "w_ok long_world"
proof -
  let ?c = "\<lparr>sname = Some ''s '', slen = 600, sdef = [], scur = []\<rparr>"
  have "scur (lcfgStrSet ?c (replicate 600 CHR ''x'')) = replicate 600 CHR ''x''"
    by (rule lcfgStrSet_id) simp_all
  then have "lcfgStrSet ?c (replicate 600 CHR ''x'') = ?c\<lparr>scur := replicate 600 CHR ''x''\<rparr>"
    by (simp add: lcfgStrSet_def Let_def)
  then show "lcfg_strs long_world =
     [\<lparr>sname = Some ''s '', slen = 600, sdef = [], scur = replicate 600 CHR ''x''\<rparr>]"
    by (simp add: long_world_def long_template_def lcfg_start_def designate_def
        lconfigSetString_def str_valid_def)
  show "lcfg_ints long_world = [zero_int]" "lcfg_dbls long_world = [zero_dbl]"
    "disk long_world = None" "r_ok long_world" "w_ok long_world"
    by (simp_all add: long_world_def long_template_def lcfg_start_def designate_def
        lconfigSetString_def str_valid_def)
qed

lemma long_example:
  "clamped long_world \<and>
   lconfigGetString long_world 0 = Some (replicate 600 CHR ''x'') \<and>
   lconfigGetString (snd (lconfigRead example_libc
     (snd (lconfigWrite example_libc long_template long_world)))) 0 =
     Some (replicate 509 CHR ''x'')"
proof -
  let ?x = "CHR ''x''"
  let ?c = "\<lparr>sname = Some ''s '', slen = 600, sdef = [], scur = replicate 600 ?x\<rparr>"
  let ?c' = "\<lparr>sname = Some ''s '', slen = 600, sdef = [], scur = replicate 509 ?x\<rparr>"
  let ?b1 = "''s '' @ replicate 509 ?x"
  let ?b2 = "replicate 91 ?x @ [newline]"
  let ?text = "''s '' @ replicate 600 ?x @ [newline]"
  let ?w1 = "long_world\<lparr>disk := Some ?text\<rparr>"
  have cl: "clamped long_world"
    by (simp add: clamped_def strs_ok_def str_ok_def long_strs zero_int_def zero_dbl_def)
  have wr: "snd (lconfigWrite example_libc long_template long_world) = ?w1"
    by (simp add: lconfigWrite_def long_template_def long_strs lcfgStrPrint_def printf_s_def)
  have cut: "replicate 600 ?x = replicate 509 ?x @ ?x # replicate 90 ?x"
  proof -
    have "replicate 600 ?x = replicate (509 + Suc 90) ?x" by simp
    also have "\<dots> = replicate 509 ?x @ ?x # replicate 90 ?x"
      by (simp only: replicate_add replicate_Suc)
    finally show ?thesis .
  qed
  have r91: "replicate 91 ?x = ?x # replicate 90 ?x"
  proof -
    have "replicate (Suc 90) ?x = ?x # replicate 90 ?x" by (rule replicate_Suc)
    moreover have "Suc 90 = (91::nat)" by simp
    ultimately show ?thesis by (simp only:)
  qed
  have whole: "?text = ?b1 @ ?x # (replicate 90 ?x @ [newline])"
    by (simp add: cut)
  have b1: "fgets LCONFIG_LMAX ?text = ?b1"
    unfolding whole by (rule fgets_full) (simp_all add: LCONFIG_LMAX_def)
  have rest: "drop (length ?b1) ?text = ?b2"
  proof -
    have "drop (length ?b1) ?text = ?x # (replicate 90 ?x @ [newline])"
      unfolding whole by (rule append_eq_conv_conj [THEN iffD1, THEN conjunct2, symmetric]) simp
    also have "\<dots> = ?b2"
      by (simp add: r91)
    finally show ?thesis .
  qed
  have b2: "fgets LCONFIG_LMAX ?b2 = ?b2"
    by (rule fgets_whole_line) (simp_all add: LCONFIG_LMAX_def)
  have lines: "fgets_lines ?text = [?b1, ?b2]"
    by (simp add: fgets_lines_step [of ?text] fgets_lines_step [of ?b2] b1 rest b2
        del: append_Cons)
  have set1: "lcfgStrRead ?c ?b1 = ?c'"
  proof -
    have "scur (lcfgStrSet ?c (replicate 509 ?x)) = replicate 509 ?x"
      by (rule lcfgStrSet_id) simp_all
    then have "lcfgStrSet ?c (replicate 509 ?x) = ?c'"
      by (simp add: lcfgStrSet_def Let_def)
    then show ?thesis
      by (simp add: lcfgStrRead_def strncmp_eq_def)
  qed
  have "\<not> prefix ''s '' ?b2"
  proof -
    have "?b2 = ?x # (replicate 90 ?x @ [newline])"
      by (simp add: r91)
    then show ?thesis by simp
  qed
  then have set2: "lcfgStrRead ?c' ?b2 = ?c'"
    by (simp add: lcfgStrRead_unmatched)
  have run: "lcfg_strs (foldl (read_txt example_libc) ?w1 [?b1, ?b2]) = [?c']"
    using set1 set2 by (simp add: read_txt_def long_strs zero_int_def zero_dbl_def)
  have rd: "snd (lconfigRead example_libc ?w1) =
      foldl (read_txt example_libc) ?w1 (fgets_lines ?text)"
    by (simp add: lconfigRead_def fopen_r_def long_strs read_loop_foldl)
  have "lcfg_strs (snd (lconfigRead example_libc ?w1)) = [?c']"
    unfolding rd lines by (rule run)
  then have "lconfigGetString (snd (lconfigRead example_libc ?w1)) 0 = Some (replicate 509 ?x)"
    by (simp add: lconfigGetString_def str_valid_def)
  with cl wr show ?thesis
    by (simp add: lconfigGetString_def str_valid_def long_strs)
qed

end
